theory Spec2Isabelle
  imports Main "HOL-Library.Sublist" "HOL-Library.AList"
begin

section \<open>Transition engine: the diff of two matched chains\<close>

text \<open>
  \<^verbatim>\<open>resolveQueue\<close> (history/base.js) compares the matched chains of the current and of the
  target route index by index. The elements are route records, compared with \<^verbatim>\<open>!==\<close>, that
  is by object identity; the model is polymorphic in the type of the elements, whose
  equality stands for that identity (an element is the reference of a record).

  A JavaScript array read out of range gives \<^verbatim>\<open>undefined\<close>: \<open>nth_opt\<close> gives \<open>None\<close>.
\<close>

fun nth_opt :: "'a list \<Rightarrow> nat \<Rightarrow> 'a option" where
  "nth_opt [] i = None"
| "nth_opt (x # xs) 0 = Some x"
| "nth_opt (x # xs) (Suc i) = nth_opt xs i"

text \<open>
  The loop \<^verbatim>\<open>for (i = 0; i < max; i++) { if (current[i] !== next[i]) break }\<close>, started at
  index \<open>i\<close>; its value is the value of \<^verbatim>\<open>i\<close> after the loop.
\<close>

function resolveQueue_loop :: "'a list \<Rightarrow> 'a list \<Rightarrow> nat \<Rightarrow> nat" where
  "resolveQueue_loop current nxt i =
     (if i < max (length current) (length nxt)
      then (if nth_opt current i \<noteq> nth_opt nxt i then i
            else resolveQueue_loop current nxt (Suc i))
      else i)"
  by pat_completeness auto
termination
  by (relation "measure (\<lambda>(current, nxt, i). max (length current) (length nxt) - i)") auto

declare resolveQueue_loop.simps [simp del]

record 'a resolved_queue =
  updated :: "'a list"
  activated :: "'a list"
  deactivated :: "'a list"

definition resolveQueue :: "'a list \<Rightarrow> 'a list \<Rightarrow> 'a resolved_queue" where
  "resolveQueue current nxt =
     (let i = resolveQueue_loop current nxt 0
      in \<lparr> updated = take i nxt, activated = drop i nxt, deactivated = drop i current \<rparr>)"

section \<open>Strings and paths (util/path.js)\<close>

text \<open>
  JavaScript strings are modelled as \<open>string\<close>. \<^verbatim>\<open>s.split(c)\<close> on a one-character separator
  always returns at least one piece (\<^verbatim>\<open>''.split('/')\<close> is \<^verbatim>\<open>['']\<close>); \<^verbatim>\<open>xs.join(sep)\<close> of the
  empty array is the empty string. A string is truthy when it is not empty.
\<close>

fun split :: "char \<Rightarrow> string \<Rightarrow> string list" where
  "split c [] = [[]]"
| "split c (x # xs) =
     (if x = c then [] # split c xs
      else (case split c xs of [] \<Rightarrow> [[x]] | y # ys \<Rightarrow> (x # y) # ys))"

fun join :: "string \<Rightarrow> string list \<Rightarrow> string" where
  "join sep [] = []"
| "join sep [x] = x"
| "join sep (x # y # ys) = x @ sep @ join sep (y # ys)"

text \<open>\<^verbatim>\<open>path.replace(/\/\//g, '/')\<close>: every non-overlapping \<^verbatim>\<open>//\<close>, left to right, becomes \<^verbatim>\<open>/\<close>.\<close>

fun cleanPath :: "string \<Rightarrow> string" where
  "cleanPath (a # b # rest) =
     (if a = CHR ''/'' \<and> b = CHR ''/'' then CHR ''/'' # cleanPath rest
      else a # cleanPath (b # rest))"
| "cleanPath s = s"

text \<open>\<^verbatim>\<open>path.replace(/\/$/, '')\<close>: one trailing slash is removed.\<close>

definition stripTrailingSlash :: "string \<Rightarrow> string" where
  "stripTrailingSlash p = (if p \<noteq> [] \<and> last p = CHR ''/'' then butlast p else p)"

text \<open>\<^verbatim>\<open>relative.replace(/^\//, '')\<close>: one leading slash is removed.\<close>

definition stripLeadingSlash :: "string \<Rightarrow> string" where
  "stripLeadingSlash p = (case p of [] \<Rightarrow> [] | c # cs \<Rightarrow> if c = CHR ''/'' then cs else p)"

text \<open>
  \<^verbatim>\<open>resolvePath(relative, base, append)\<close>. \<^verbatim>\<open>stack.pop()\<close> on an empty array does nothing
  (\<open>butlast\<close>), and \<^verbatim>\<open>stack[0] !== ''\<close> holds for an empty stack too. The first function is
  the body of the loop over the segments of the relative path.
\<close>

definition resolvePath_segment :: "string \<Rightarrow> string list \<Rightarrow> string list" where
  "resolvePath_segment segment stack =
     (if segment = ''..'' then butlast stack
      else if segment \<noteq> ''.'' then stack @ [segment]
      else stack)"

definition resolvePath :: "string \<Rightarrow> string \<Rightarrow> bool \<Rightarrow> string" where
  "resolvePath relative base appnd =
     (if take 1 relative = ''/'' then relative
      else if take 1 relative = ''?'' \<or> take 1 relative = ''#'' then base @ relative
      else
        let stack0 = split (CHR ''/'') base;
            stack1 = (if \<not> appnd \<or> last stack0 = [] then butlast stack0 else stack0);
            segments = split (CHR ''/'') (stripLeadingSlash relative);
            stack2 = fold resolvePath_segment segments stack1;
            stack3 = (case stack2 of [] \<Rightarrow> [[]] | s # _ \<Rightarrow> if s \<noteq> [] then [] # stack2 else stack2)
        in join ''/'' stack3)"

text \<open>
  \<^verbatim>\<open>parsePath\<close>: the hash is the part from the first \<^verbatim>\<open>#\<close> on (the \<^verbatim>\<open>#\<close> included), the
  query the part after the first \<^verbatim>\<open>?\<close> of what is left (the \<^verbatim>\<open>?\<close> excluded).
\<close>

record parsed_path =
  pp_path :: string
  pp_query :: string
  pp_hash :: string

definition parsePath :: "string \<Rightarrow> parsed_path" where
  "parsePath path0 =
     (let hash = dropWhile (\<lambda>c. c \<noteq> CHR ''#'') path0;
          path1 = takeWhile (\<lambda>c. c \<noteq> CHR ''#'') path0;
          query = drop 1 (dropWhile (\<lambda>c. c \<noteq> CHR ''?'') path1);
          path2 = takeWhile (\<lambda>c. c \<noteq> CHR ''?'') path1
      in \<lparr> pp_path = path2, pp_query = query, pp_hash = hash \<rparr>)"

section \<open>Data model (flow/declarations.js)\<close>

text \<open>
  A \<^verbatim>\<open>Dictionary<string>\<close> of params is a map from keys to values; a value can be
  \<^verbatim>\<open>undefined\<close> (the capture of an optional group that did not take part in a match), which
  is the inner \<open>None\<close>. A query is kept as an association list in insertion order, as
  \<^verbatim>\<open>Object.keys\<close> enumerates it. An optional string property is a \<open>string option\<close>; it is
  truthy when it is present and not empty.
\<close>

type_synonym Params = "string \<rightharpoonup> string option"

datatype query_value = QNull | QString string | QArray "string option list"

type_synonym Query = "(string \<times> query_value) list"

definition truthy :: "string option \<Rightarrow> bool" where
  "truthy s = (case s of None \<Rightarrow> False | Some v \<Rightarrow> v \<noteq> [])"

record Location =
  l_normalized :: bool
  l_name :: "string option"
  l_path :: "string option"
  l_hash :: "string option"
  l_query :: "Query option"
  l_params :: "Params option"
  l_append :: bool
  l_replace :: bool

datatype RawLocation = RawString string | RawLoc Location

record PathToRegexpOptions =
  sensitive :: "bool option"
  strict :: "bool option"
  end_opt :: "bool option"

text \<open>
  A \<^verbatim>\<open>RouteRegExp\<close> is a regular expression of the library path-to-regexp with its keys.
  The name of a key is a string, or a number for an unnamed group (\<^verbatim>\<open>0\<close> for \<^verbatim>\<open>*\<close>).
  \<open>rx_match re path\<close> is \<^verbatim>\<open>path.match(re)\<close>: \<open>None\<close> when the path does not match, and
  otherwise the captures \<^verbatim>\<open>m[1], m[2], ...\<close>, each a string or \<^verbatim>\<open>undefined\<close>.
\<close>

datatype key_name = KName string | KIndex nat

record Key =
  k_name :: key_name
  k_optional :: bool

record RouteRegExp =
  rx_keys :: "Key list"
  rx_match :: "string \<Rightarrow> string option list option"

text \<open>
  A redirect option is a raw location or a function of the route, named here by a
  label; what the function does is a parameter of the model (\<open>redirectFn\<close> below).
\<close>

datatype RedirectOption = RedirectTo RawLocation | RedirectFn string

text \<open>
  A route record. Records are objects, compared by identity where the transition engine
  compares them: \<open>rr_id\<close> is the address of the record, given when \<^verbatim>\<open>addRouteRecord\<close>
  creates it. The registries \<^verbatim>\<open>instances\<close> and \<^verbatim>\<open>enteredCbs\<close>, which the view renderer writes,
  are not part of the value; \<^verbatim>\<open>props\<close> is left out (no function modelled here reads it).
  Components, guards and metadata are opaque and named by labels.
\<close>

datatype RouteRecord = RouteRecord
  (rr_id: nat)
  (rr_path: string)
  (rr_regex: RouteRegExp)
  (rr_components: "(string \<times> string option) list")
  (rr_name: "string option")
  (rr_parent: "RouteRecord option")
  (rr_matchAs: "string option")
  (rr_redirect: "RedirectOption option")
  (rr_beforeEnter: "string option")
  (rr_meta: "string option")

text \<open>
  A route. Routes are frozen objects that the transition engine compares by identity
  (\<^verbatim>\<open>this.pending !== route\<close>): \<open>r_ref\<close> is the address of the object.
\<close>

record Route =
  r_ref :: nat
  r_name :: "string option"
  r_meta :: "string option"
  r_path :: string
  r_hash :: string
  r_query :: Query
  r_params :: Params
  r_fullPath :: string
  r_matched :: "RouteRecord list"
  r_redirectedFrom :: "string option"

datatype RouteConfig = RouteConfig
  (c_path: string)
  (c_name: "string option")
  (c_component: "string option")
  (c_components: "(string \<times> string option) list option")
  (c_redirect: "RedirectOption option")
  (c_alias: "string list")
  (c_children: "RouteConfig list")
  (c_beforeEnter: "string option")
  (c_meta: "string option")
  (c_caseSensitive: "bool option")
  (c_pathToRegexpOptions: "PathToRegexpOptions option")

text \<open>
  A value that JavaScript code throws: an \<^verbatim>\<open>Error\<close> object (with its message), any other
  truthy value, or a falsy value (\<^verbatim>\<open>undefined\<close>, \<^verbatim>\<open>null\<close>, \<^verbatim>\<open>false\<close>, \<^verbatim>\<open>0\<close>, \<^verbatim>\<open>NaN\<close> or the empty
  string).
\<close>

datatype thrown = Error string | NonError string | Falsy string

text \<open>What a redirect function returns: a string, an object, or anything else.\<close>

datatype redirect_result = RString string | RObject Location | ROther

text \<open>
  The parameters of the model: the third-party library path-to-regexp (\<^verbatim>\<open>Regexp(path, [],
  options)\<close> and \<^verbatim>\<open>Regexp.compile(path)\<close> applied to params, \<open>None\<close> when either throws), the
  built-in URI coding functions (\<open>None\<close> when \<^verbatim>\<open>decodeURIComponent\<close> throws), the functions of
  the user (redirect functions, which may throw, and the query coding options of the
  router; \<open>parseQuery\<close> stands for \<^verbatim>\<open>router.options.parseQuery || parseQuery\<close>, \<open>None\<close> when it
  throws), and the build mode (\<^verbatim>\<open>process.env.NODE_ENV === 'production'\<close>).
\<close>

record deps =
  Regexp :: "string \<Rightarrow> PathToRegexpOptions \<Rightarrow> RouteRegExp"
  Regexp_compile :: "string \<Rightarrow> Params \<Rightarrow> string option"
  decodeURIComponent :: "string \<Rightarrow> string option"
  encodeURIComponent :: "string \<Rightarrow> string"
  parseQuery :: "string \<Rightarrow> Query option"
  stringifyQuery_option :: "(Query \<Rightarrow> string) option"
  redirectFn :: "string \<Rightarrow> Route \<Rightarrow> thrown + redirect_result"
  production :: bool

section \<open>The route table (create-route-map.js)\<close>

text \<open>
  The three tables that \<^verbatim>\<open>createRouteMap\<close> fills, with the next free record address.
  \<^verbatim>\<open>pathMap\<close> and \<^verbatim>\<open>nameMap\<close> are objects without a prototype.
\<close>

record tables =
  pathList :: "string list"
  pathMap :: "string \<rightharpoonup> RouteRecord"
  nameMap :: "string \<rightharpoonup> RouteRecord"
  alloc :: nat

definition emptyTables :: tables where
  "emptyTables = \<lparr> pathList = [], pathMap = Map.empty, nameMap = Map.empty, alloc = 0 \<rparr>"

definition normalizePath :: "string \<Rightarrow> RouteRecord option \<Rightarrow> bool \<Rightarrow> string" where
  "normalizePath path0 parent strct =
     (let path = (if \<not> strct then stripTrailingSlash path0 else path0)
      in if take 1 path = ''/'' then path
         else case parent of
                None \<Rightarrow> path
              | Some p \<Rightarrow> cleanPath (rr_path p @ ''/'' @ path))"

definition compileRouteRegex :: "deps \<Rightarrow> string \<Rightarrow> PathToRegexpOptions \<Rightarrow> RouteRegExp" where
  "compileRouteRegex d path opts = Regexp d path opts"

text \<open>The synthetic configuration \<^verbatim>\<open>{ path: alias, children: route.children }\<close> of an alias.\<close>

definition aliasRoute :: "string \<Rightarrow> RouteConfig list \<Rightarrow> RouteConfig" where
  "aliasRoute alias children =
     RouteConfig alias None None None None [] children None None None None"

fun config_weight :: "RouteConfig \<Rightarrow> nat" where
  "config_weight (RouteConfig p n c cs r al ch be me cse opts) =
     2 * (1 + sum_list (map config_weight ch)) + (if al = [] then 0 else 1)"

lemma config_weight_child:
  "child \<in> set (c_children route) \<Longrightarrow> config_weight child < config_weight route"
proof (cases route)
  case (RouteConfig p n c cs r al ch be me cse opts)
  assume "child \<in> set (c_children route)"
  with RouteConfig have "config_weight child \<in> set (map config_weight ch)" by simp
  then have "config_weight child \<le> sum_list (map config_weight ch)"
    by (simp add: member_le_sum_list)
  with RouteConfig show ?thesis by simp
qed

lemma config_weight_alias:
  "a \<in> set (c_alias route) \<Longrightarrow>
   config_weight (aliasRoute a (c_children route)) < config_weight route"
  by (cases route) (auto simp: aliasRoute_def)

text \<open>
  \<^verbatim>\<open>addRouteRecord\<close>: the tables are passed and returned. Assertions and warnings of the
  development build are diagnostics and are left out; the one place where the build
  mode changes the control flow (an alias equal to the path is skipped) is kept.
  Three steps of the function are named: the construction of the record (at the address
  \<open>ref\<close>), the registration of its path (\<^verbatim>\<open>if (!pathMap[record.path]) ...\<close>) and the
  registration of its name (\<^verbatim>\<open>if (name) { if (!nameMap[name]) ... }\<close>).
\<close>

definition makeRecord ::
  "deps \<Rightarrow> nat \<Rightarrow> RouteConfig \<Rightarrow> RouteRecord option \<Rightarrow> string option \<Rightarrow> RouteRecord" where
  "makeRecord d ref route parent matchAs =
     (let pathToRegexpOptions0 =
            (case c_pathToRegexpOptions route of
               Some opts \<Rightarrow> opts
             | None \<Rightarrow> \<lparr> sensitive = None, strict = None, end_opt = None \<rparr>);
          normalizedPath =
            normalizePath (c_path route) parent (strict pathToRegexpOptions0 = Some True);
          pathToRegexpOptions =
            (case c_caseSensitive route of
               Some b \<Rightarrow> pathToRegexpOptions0 \<lparr> sensitive := Some b \<rparr>
             | None \<Rightarrow> pathToRegexpOptions0)
      in RouteRecord ref normalizedPath
           (compileRouteRegex d normalizedPath pathToRegexpOptions)
           (case c_components route of
              Some cs \<Rightarrow> cs
            | None \<Rightarrow> [(''default'', c_component route)])
           (c_name route) parent matchAs (c_redirect route) (c_beforeEnter route) (c_meta route))"

definition registerPath :: "tables \<Rightarrow> RouteRecord \<Rightarrow> tables" where
  "registerPath t record =
     (if pathMap t (rr_path record) = None
      then t \<lparr> pathList := pathList t @ [rr_path record],
               pathMap := (pathMap t)(rr_path record \<mapsto> record) \<rparr>
      else t)"

definition registerName :: "tables \<Rightarrow> string option \<Rightarrow> RouteRecord \<Rightarrow> tables" where
  "registerName t name record =
     (if truthy name \<and> nameMap t (the name) = None
      then t \<lparr> nameMap := (nameMap t)(the name \<mapsto> record) \<rparr>
      else t)"

function addRouteRecord ::
  "deps \<Rightarrow> tables \<Rightarrow> RouteConfig \<Rightarrow> RouteRecord option \<Rightarrow> string option \<Rightarrow> tables" where
  "addRouteRecord d t route parent matchAs =
     (let record = makeRecord d (alloc t) route parent matchAs;
          t1 = t \<lparr> alloc := Suc (alloc t) \<rparr>;
          t2 = fold (\<lambda>child t'.
                  addRouteRecord d t' child (Some record)
                    (if truthy matchAs
                     then Some (cleanPath (the matchAs @ ''/'' @ c_path child))
                     else None))
                 (c_children route) t1;
          t3 = registerPath t2 record;
          t4 = fold (\<lambda>alias t'.
                  if \<not> production d \<and> alias = c_path route then t'
                  else addRouteRecord d t' (aliasRoute alias (c_children route)) parent
                         (Some (if rr_path record \<noteq> [] then rr_path record else ''/'')))
                 (c_alias route) t3
      in registerName t4 (c_name route) record)"
  by pat_completeness auto
termination
  by (relation "measure (\<lambda>(d, t, route, parent, matchAs). config_weight route)")
     (auto simp: config_weight_child config_weight_alias)

declare addRouteRecord.simps [simp del]

text \<open>
  The loop of \<^verbatim>\<open>createRouteMap\<close> that moves the wildcard to the end:
  \<^verbatim>\<open>for (let i = 0, l = pathList.length; i < l; i++)
     if (pathList[i] === '*') { pathList.push(pathList.splice(i, 1)[0]); l--; i-- }\<close>.
  \<^verbatim>\<open>i--\<close> followed by the \<^verbatim>\<open>i++\<close> of the loop leaves \<^verbatim>\<open>i\<close> as it is.
\<close>

function createRouteMap_loop :: "string list \<Rightarrow> nat \<Rightarrow> nat \<Rightarrow> string list" where
  "createRouteMap_loop pl i l =
     (if i < l
      then (if nth_opt pl i = Some ''*''
            then createRouteMap_loop (take i pl @ drop (Suc i) pl @ [''*'']) i (l - 1)
            else createRouteMap_loop pl (Suc i) l)
      else pl)"
  by pat_completeness auto
termination
  by (relation "measure (\<lambda>(pl, i, l). l - i)") auto

declare createRouteMap_loop.simps [simp del]

text \<open>
  \<^verbatim>\<open>createRouteMap(routes, oldPathList, oldPathMap, oldNameMap)\<close>; the first call starts from
  \<open>emptyTables\<close>, \<^verbatim>\<open>addRoutes\<close> from the tables of the matcher.
\<close>

definition createRouteMap :: "deps \<Rightarrow> RouteConfig list \<Rightarrow> tables \<Rightarrow> tables" where
  "createRouteMap d routes old =
     (let t = fold (\<lambda>route t'. addRouteRecord d t' route None None) routes old
      in t \<lparr> pathList := createRouteMap_loop (pathList t) 0 (length (pathList t)) \<rparr>)"

section \<open>Query coding (util/query.js)\<close>

text \<open>
  \<^verbatim>\<open>encode\<close> escapes the characters \<^verbatim>\<open>!'()*\<close> that \<^verbatim>\<open>encodeURIComponent\<close> leaves alone
  (\<^verbatim>\<open>'%' + c.charCodeAt(0).toString(16)\<close>) and turns \<^verbatim>\<open>%2C\<close> back into a comma.
\<close>

fun encodeReserve :: "string \<Rightarrow> string" where
  "encodeReserve [] = []"
| "encodeReserve (c # cs) =
     (if c = CHR ''!'' then ''%21'' @ encodeReserve cs
      else if c = CHR 0x27 then ''%27'' @ encodeReserve cs
      else if c = CHR ''('' then ''%28'' @ encodeReserve cs
      else if c = CHR '')'' then ''%29'' @ encodeReserve cs
      else if c = CHR ''*'' then ''%2a'' @ encodeReserve cs
      else c # encodeReserve cs)"

fun restoreCommas :: "string \<Rightarrow> string" where
  "restoreCommas (a # b # c # rest) =
     (if a = CHR ''%'' \<and> b = CHR ''2'' \<and> c = CHR ''C'' then CHR '','' # restoreCommas rest
      else a # restoreCommas (b # c # rest))"
| "restoreCommas s = s"

definition encode :: "deps \<Rightarrow> string \<Rightarrow> string" where
  "encode d str = restoreCommas (encodeReserve (encodeURIComponent d str))"

definition decode :: "deps \<Rightarrow> string \<Rightarrow> string" where
  "decode d str = (case decodeURIComponent d str of Some s \<Rightarrow> s | None \<Rightarrow> str)"

text \<open>
  \<^verbatim>\<open>castQueryParamValue\<close> leaves \<^verbatim>\<open>null\<close> and objects alone and applies \<^verbatim>\<open>String\<close> to the
  rest; the values of the model are \<^verbatim>\<open>null\<close>, strings and arrays of those.
\<close>

definition castQueryParamValue :: "query_value \<Rightarrow> query_value" where
  "castQueryParamValue v = (case v of QNull \<Rightarrow> QNull | QString s \<Rightarrow> QString s | QArray a \<Rightarrow> QArray a)"

definition resolveQuery :: "deps \<Rightarrow> string \<Rightarrow> Query option \<Rightarrow> Query" where
  "resolveQuery d query extraQuery =
     (let parsedQuery = (case parseQuery d query of Some q \<Rightarrow> q | None \<Rightarrow> [])
      in fold (\<lambda>(key, v) pq. AList.update key (castQueryParamValue v) pq)
           (case extraQuery of Some q \<Rightarrow> q | None \<Rightarrow> []) parsedQuery)"

definition stringifyQuery_entry :: "deps \<Rightarrow> string \<times> query_value \<Rightarrow> string" where
  "stringifyQuery_entry d kv =
     (case kv of
        (key, QNull) \<Rightarrow> encode d key
      | (key, QArray vals) \<Rightarrow>
          join ''&'' (map (\<lambda>val2. case val2 of
                                   None \<Rightarrow> encode d key
                                 | Some v \<Rightarrow> encode d key @ ''='' @ encode d v) vals)
      | (key, QString val) \<Rightarrow> encode d key @ ''='' @ encode d val)"

definition stringifyQuery :: "deps \<Rightarrow> Query \<Rightarrow> string" where
  "stringifyQuery d obj =
     (let res = join ''&'' (filter (\<lambda>x. x \<noteq> []) (map (stringifyQuery_entry d) obj))
      in if res \<noteq> [] then ''?'' @ res else [])"

section \<open>Filling a pattern with params (util/params.js)\<close>

text \<open>
  \<^verbatim>\<open>fillParams(path, params, routeMsg)\<close> returns the filled path, or the empty string when
  compiling or filling throws. It writes \<^verbatim>\<open>params[0]\<close> when \<^verbatim>\<open>params.pathMatch\<close> is a string and
  always deletes \<^verbatim>\<open>params[0]\<close> at the end: the second component is the params object as the
  call leaves it. The cache of compiled patterns only saves recompiling and is left out.
\<close>

definition fillParams :: "deps \<Rightarrow> string \<Rightarrow> Params option \<Rightarrow> string \<times> Params" where
  "fillParams d path params =
     (let ps = (case params of Some p \<Rightarrow> p | None \<Rightarrow> Map.empty);
          ps0 = (case ps ''pathMatch'' of Some (Some v) \<Rightarrow> ps(''0'' \<mapsto> Some v) | _ \<Rightarrow> ps)
      in (case Regexp_compile d path ps0 of Some s \<Rightarrow> s | None \<Rightarrow> [], ps(''0'' := None)))"

section \<open>Normalising a location (util/location.js)\<close>

definition emptyLocation :: Location where
  "emptyLocation = \<lparr> l_normalized = False, l_name = None, l_path = None, l_hash = None,
     l_query = None, l_params = None, l_append = False, l_replace = False \<rparr>"

text \<open>
  \<^verbatim>\<open>normalizeLocation(raw, current, append, router)\<close>. The router is only asked for its
  \<^verbatim>\<open>parseQuery\<close> option, which is the parameter \<open>parseQuery\<close>. \<^verbatim>\<open>extend({}, raw)\<close> copies an
  object; a copy is the same value. \<open>raw_object\<close> is
  \<^verbatim>\<open>typeof raw === 'string' ? { path: raw } : raw\<close>.
\<close>

definition raw_object :: "RawLocation \<Rightarrow> Location" where
  "raw_object raw =
     (case raw of RawString s \<Rightarrow> emptyLocation \<lparr> l_path := Some s \<rparr> | RawLoc l \<Rightarrow> l)"

definition normalizeLocation :: "deps \<Rightarrow> RawLocation \<Rightarrow> Route option \<Rightarrow> bool \<Rightarrow> Location" where
  "normalizeLocation d raw current appnd =
     (let nxt = raw_object raw
      in if l_normalized nxt then nxt
         else if truthy (l_name nxt) then nxt
         else if \<not> truthy (l_path nxt) \<and> l_params nxt \<noteq> None \<and> current \<noteq> None then
           (let cur = the current;
                nxt1 = nxt \<lparr> l_normalized := True \<rparr>;
                params = r_params cur ++ the (l_params nxt1)
            in if truthy (r_name cur) then nxt1 \<lparr> l_name := r_name cur, l_params := Some params \<rparr>
               else if r_matched cur \<noteq> [] then
                 nxt1 \<lparr> l_path := Some (fst (fillParams d (rr_path (last (r_matched cur))) (Some params))) \<rparr>
               else nxt1)
         else
           (let parsedPath = parsePath (case l_path nxt of Some p \<Rightarrow> p | None \<Rightarrow> []);
                basePath = (case current of
                              Some cur \<Rightarrow> if r_path cur \<noteq> [] then r_path cur else ''/''
                            | None \<Rightarrow> ''/'');
                path = (if pp_path parsedPath \<noteq> []
                        then resolvePath (pp_path parsedPath) basePath (appnd \<or> l_append nxt)
                        else basePath);
                query = resolveQuery d (pp_query parsedPath) (l_query nxt);
                hash0 = (if truthy (l_hash nxt) then the (l_hash nxt) else pp_hash parsedPath);
                hash = (if hash0 \<noteq> [] \<and> take 1 hash0 \<noteq> ''#'' then ''#'' @ hash0 else hash0)
            in emptyLocation \<lparr> l_normalized := True, l_path := Some path,
                 l_query := Some query, l_hash := Some hash \<rparr>))"

section \<open>Creating a route (util/route.js)\<close>

text \<open>
  Modelled from the spec: \<^verbatim>\<open>createRoute\<close> and its helpers \<^verbatim>\<open>formatMatch\<close> and \<^verbatim>\<open>getFullPath\<close>
  (util/route.js) are not among the source files. The spec (section 3) describes a route
  as the concrete path, the optional name, the hash fragment, the query map, the params
  map, the full path string (path + query + hash), the ordered sequence of records from
  the root to the deepest matched record, the optional redirected-from path and the
  metadata of the deepest record; a route that matches nothing has an empty matched
  chain, and the sentinel route has the root path. The chain is rebuilt by walking the
  parent references (section 9). A missing path reads as the root path, a missing hash
  as the empty string, and the name of the location comes before the name of the record.
  The address \<open>r_ref\<close> of a new route is set where the route is compared by identity.
\<close>

fun formatMatch :: "RouteRecord \<Rightarrow> RouteRecord list" where
  "formatMatch (RouteRecord i p re cs n parent m r b me) =
     (case parent of
        None \<Rightarrow> [RouteRecord i p re cs n parent m r b me]
      | Some pr \<Rightarrow> formatMatch pr @ [RouteRecord i p re cs n parent m r b me])"

definition stringify :: "deps \<Rightarrow> Query \<Rightarrow> string" where
  "stringify d q = (case stringifyQuery_option d of Some f \<Rightarrow> f q | None \<Rightarrow> stringifyQuery d q)"

definition getFullPath :: "deps \<Rightarrow> Location \<Rightarrow> string" where
  "getFullPath d loc =
     (if truthy (l_path loc) then the (l_path loc) else ''/'')
     @ stringify d (case l_query loc of Some q \<Rightarrow> q | None \<Rightarrow> [])
     @ (case l_hash loc of Some h \<Rightarrow> h | None \<Rightarrow> [])"

definition createRoute :: "deps \<Rightarrow> RouteRecord option \<Rightarrow> Location \<Rightarrow> Location option \<Rightarrow> Route" where
  "createRoute d record location redirectedFrom =
     \<lparr> r_ref = 0,
       r_name = (if truthy (l_name location) then l_name location
                 else (case record of Some r \<Rightarrow> rr_name r | None \<Rightarrow> None)),
       r_meta = (case record of Some r \<Rightarrow> rr_meta r | None \<Rightarrow> None),
       r_path = (if truthy (l_path location) then the (l_path location) else ''/''),
       r_hash = (case l_hash location of Some h \<Rightarrow> h | None \<Rightarrow> []),
       r_query = (case l_query location of Some q \<Rightarrow> q | None \<Rightarrow> []),
       r_params = (case l_params location of Some p \<Rightarrow> p | None \<Rightarrow> Map.empty),
       r_fullPath = getFullPath d location,
       r_matched = (case record of Some r \<Rightarrow> formatMatch r | None \<Rightarrow> []),
       r_redirectedFrom = map_option (getFullPath d) redirectedFrom \<rparr>"


section \<open>The matcher (create-matcher.js)\<close>

function string_of_nat :: "nat \<Rightarrow> string" where
  "string_of_nat n =
     (if n < 10 then [char_of (48 + n)]
      else string_of_nat (n div 10) @ [char_of (48 + n mod 10)])"
  by pat_completeness auto
termination
  by (relation "measure id") auto

declare string_of_nat.simps [simp del]

text \<open>\<^verbatim>\<open>key.name || 'pathMatch'\<close>, as a property name.\<close>

definition param_key :: "key_name \<Rightarrow> string" where
  "param_key kn =
     (case kn of
        KName s \<Rightarrow> if s \<noteq> [] then s else ''pathMatch''
      | KIndex i \<Rightarrow> if i \<noteq> 0 then string_of_nat i else ''pathMatch'')"

text \<open>
  \<^verbatim>\<open>matchRoute(regex, path, params)\<close>: \<open>None\<close> is \<^verbatim>\<open>false\<close>; \<open>Some ps\<close> is \<^verbatim>\<open>true\<close>, with the
  params object as the call has filled it. A capture that is a string is decoded, any
  other is stored as it is; a capture without a key is skipped.
\<close>

definition matchRoute :: "deps \<Rightarrow> RouteRegExp \<Rightarrow> string \<Rightarrow> Params \<Rightarrow> Params option" where
  "matchRoute d regex path params =
     (case rx_match regex path of
        None \<Rightarrow> None
      | Some m \<Rightarrow>
          Some (fold (\<lambda>(mi, key) ps. ps(param_key (k_name key) \<mapsto> map_option (decode d) mi))
                  (zip m (rx_keys regex)) params))"

definition resolveRecordPath :: "string \<Rightarrow> RouteRecord \<Rightarrow> string" where
  "resolveRecordPath path record =
     resolvePath path (case rr_parent record of Some p \<Rightarrow> rr_path p | None \<Rightarrow> ''/'') True"

text \<open>
  The loop of \<^verbatim>\<open>match\<close> over \<^verbatim>\<open>pathList\<close>: the first record whose pattern matches the path,
  with the params of the match. A path of the list without a record in \<^verbatim>\<open>pathMap\<close> makes
  \<^verbatim>\<open>record.regex\<close> throw a \<^verbatim>\<open>TypeError\<close>.
\<close>

fun match_loop ::
  "deps \<Rightarrow> tables \<Rightarrow> string list \<Rightarrow> string \<Rightarrow> thrown + (RouteRecord \<times> Params) option" where
  "match_loop d t [] path = Inr None"
| "match_loop d t (p # ps) path =
     (case pathMap t p of
        None \<Rightarrow> Inl (Error ''TypeError'')
      | Some record \<Rightarrow>
          (case matchRoute d (rr_regex record) path Map.empty of
             Some params \<Rightarrow> Inr (Some (record, params))
           | None \<Rightarrow> match_loop d t ps path))"

text \<open>\<^verbatim>\<open>record.redirect\<close> as a condition: only the empty string is falsy.\<close>

definition has_redirect :: "RouteRecord \<Rightarrow> bool" where
  "has_redirect r =
     (case rr_redirect r of
        None \<Rightarrow> False
      | Some (RedirectTo (RawString s)) \<Rightarrow> s \<noteq> []
      | Some _ \<Rightarrow> True)"

text \<open>
  \<^verbatim>\<open>match\<close>, \<^verbatim>\<open>redirect\<close>, \<^verbatim>\<open>alias\<close> (here \<open>alias'\<close>) and \<^verbatim>\<open>_createRoute\<close> (here
  \<open>createRoute'\<close>) call each other and need not return: records that redirect to each
  other make \<^verbatim>\<open>match\<close> recurse until the call stack overflows. The result of a call is
  \<open>None\<close> when it does not return, \<open>Some (Inl e)\<close> when \<open>e\<close> is thrown, and
  \<open>Some (Inr route)\<close> when the route is returned. The location objects that the code
  mutates (\<^verbatim>\<open>location.params\<close>, \<^verbatim>\<open>location.path\<close>) are passed on in their mutated state.

  Each function is first written with the functions it calls as arguments (the
  arguments \<open>match_rec\<close>, \<open>redirect_rec\<close>, \<open>alias_rec\<close>, \<open>createRoute_rec\<close>); the
  recursion is then closed by \<open>matcher_run\<close>, whose first argument bounds the depth of the
  calls.
\<close>

type_synonym match_result = "(thrown + Route) option"

text \<open>
  The named branch of \<^verbatim>\<open>match\<close> once the record is found: the location after the params
  that the record requires have been inherited from the current route and the path has
  been filled. \<^verbatim>\<open>paramNames.indexOf(key)\<close> compares with \<^verbatim>\<open>===\<close>, so a key of the current
  params (a string) is only found among the names that are strings.
\<close>

definition namedLocation :: "deps \<Rightarrow> RouteRecord \<Rightarrow> Location \<Rightarrow> Route option \<Rightarrow> Location" where
  "namedLocation d record location currentRoute =
     (let paramNames = map k_name (filter (\<lambda>key. \<not> k_optional key) (rx_keys (rr_regex record)));
          params0 = (case l_params location of Some p \<Rightarrow> p | None \<Rightarrow> Map.empty);
          params1 = (case currentRoute of
                       None \<Rightarrow> params0
                     | Some cur \<Rightarrow>
                         (\<lambda>key. if key \<in> dom (r_params cur) \<and> key \<notin> dom params0
                                    \<and> KName key \<in> set paramNames
                                 then r_params cur key else params0 key));
          filled = fillParams d (rr_path record) (Some params1)
      in location \<lparr> l_params := Some (snd filled), l_path := Some (fst filled) \<rparr>)"

definition match_body ::
  "(RouteRecord option \<Rightarrow> Location \<Rightarrow> Location option \<Rightarrow> match_result)
   \<Rightarrow> deps \<Rightarrow> tables \<Rightarrow> RawLocation \<Rightarrow> Route option \<Rightarrow> Location option \<Rightarrow> match_result" where
  "match_body createRoute_rec d t raw currentRoute redirectedFrom =
     (let location = normalizeLocation d raw currentRoute False
      in if truthy (l_name location) then
           (case nameMap t (the (l_name location)) of
              None \<Rightarrow> createRoute_rec None location None
            | Some record \<Rightarrow>
                createRoute_rec (Some record) (namedLocation d record location currentRoute)
                  redirectedFrom)
         else if truthy (l_path location) then
           (case match_loop d t (pathList t) (the (l_path location)) of
              Inl e \<Rightarrow> Some (Inl e)
            | Inr None \<Rightarrow>
                createRoute_rec None (location \<lparr> l_params := Some Map.empty \<rparr>) None
            | Inr (Some found) \<Rightarrow>
                createRoute_rec (Some (fst found)) (location \<lparr> l_params := Some (snd found) \<rparr>)
                  redirectedFrom)
         else createRoute_rec None location None)"

text \<open>
  The value of \<^verbatim>\<open>redirect\<close> after \<^verbatim>\<open>originalRedirect\<close> has been called when it is a function
  (\<open>Inl\<close> when the function throws), and the object \<^verbatim>\<open>re\<close> that it stands for: a string
  becomes \<^verbatim>\<open>{ path: redirect }\<close>, and a value that is not an object is invalid (\<open>None\<close>).
\<close>

definition redirect_value :: "deps \<Rightarrow> RouteRecord \<Rightarrow> Location \<Rightarrow> thrown + redirect_result" where
  "redirect_value d record location =
     (case rr_redirect record of
        Some (RedirectFn f) \<Rightarrow> redirectFn d f (createRoute d (Some record) location None)
      | Some (RedirectTo (RawString s)) \<Rightarrow> Inr (RString s)
      | Some (RedirectTo (RawLoc l)) \<Rightarrow> Inr (RObject l)
      | None \<Rightarrow> Inr ROther)"

definition redirect_object :: "redirect_result \<Rightarrow> Location option" where
  "redirect_object result =
     (case result of
        RString s \<Rightarrow> Some (emptyLocation \<lparr> l_path := Some s \<rparr>)
      | RObject l \<Rightarrow> Some l
      | ROther \<Rightarrow> None)"

text \<open>
  The locations that \<^verbatim>\<open>redirect\<close> hands to \<^verbatim>\<open>match\<close>. The fields \<^verbatim>\<open>query\<close>, \<^verbatim>\<open>hash\<close> and \<^verbatim>\<open>params\<close>
  of the redirect object are taken where it has them (\<^verbatim>\<open>hasOwnProperty\<close>) and those of the
  location otherwise. For a path, \<^verbatim>\<open>fillParams\<close> deletes \<^verbatim>\<open>params[0]\<close> from the params object it
  is given: when that is the object of the location, the location that is passed on as
  \<^verbatim>\<open>redirectedFrom\<close> has lost the key (a deletion from an object owned by the redirect
  option itself is not tracked).
\<close>

definition redirect_params :: "Location \<Rightarrow> Location \<Rightarrow> Params option" where
  "redirect_params re location = (if l_params re \<noteq> None then l_params re else l_params location)"

definition redirect_named_target :: "Location \<Rightarrow> Location \<Rightarrow> Location" where
  "redirect_named_target re location =
     emptyLocation \<lparr> l_normalized := True, l_name := l_name re,
       l_query := (if l_query re \<noteq> None then l_query re else l_query location),
       l_hash := (if l_hash re \<noteq> None then l_hash re else l_hash location),
       l_params := redirect_params re location \<rparr>"

definition redirect_path_target :: "deps \<Rightarrow> Location \<Rightarrow> RouteRecord \<Rightarrow> Location \<Rightarrow> Location" where
  "redirect_path_target d re record location =
     emptyLocation \<lparr> l_normalized := True,
       l_path := Some (fst (fillParams d (resolveRecordPath (the (l_path re)) record)
                              (redirect_params re location))),
       l_query := (if l_query re \<noteq> None then l_query re else l_query location),
       l_hash := (if l_hash re \<noteq> None then l_hash re else l_hash location) \<rparr>"

definition redirect_path_from :: "deps \<Rightarrow> Location \<Rightarrow> RouteRecord \<Rightarrow> Location \<Rightarrow> Location" where
  "redirect_path_from d re record location =
     (if l_params re = None \<and> l_params location \<noteq> None
      then location \<lparr> l_params :=
             Some (snd (fillParams d (resolveRecordPath (the (l_path re)) record)
                          (l_params location))) \<rparr>
      else location)"

text \<open>
  Modelled from the spec: \<^verbatim>\<open>assert\<close> (util/warn.js) is not among the source files. The spec
  (section 4.4) speaks of matcher-level exceptions that are thrown for an invalid
  configuration: \<^verbatim>\<open>assert(condition, message)\<close> throws an \<^verbatim>\<open>Error\<close> with the message when the
  condition is falsy (\<open>Some\<close> the error), whereas \<^verbatim>\<open>warn\<close> only reports.
\<close>

definition assert :: "bool \<Rightarrow> string \<Rightarrow> thrown option" where
  "assert condition message =
     (if condition then None else Some (Error (''[vue-router] '' @ message)))"

text \<open>
  The check of a named redirect, outside production: the name must be that of a record.
\<close>

definition redirect_assert :: "deps \<Rightarrow> tables \<Rightarrow> string \<Rightarrow> thrown option" where
  "redirect_assert d t name =
     (if \<not> production d
      then assert (nameMap t name \<noteq> None)
             (''redirect failed: named route '' @ [CHR 0x22] @ name @ [CHR 0x22] @ '' not found.'')
      else None)"

definition redirect_body ::
  "(RawLocation \<Rightarrow> Route option \<Rightarrow> Location option \<Rightarrow> match_result)
   \<Rightarrow> (RouteRecord option \<Rightarrow> Location \<Rightarrow> Location option \<Rightarrow> match_result)
   \<Rightarrow> deps \<Rightarrow> tables \<Rightarrow> RouteRecord \<Rightarrow> Location \<Rightarrow> match_result" where
  "redirect_body match_rec createRoute_rec d t record location =
     (case redirect_value d record location of
        Inl e \<Rightarrow> Some (Inl e)
      | Inr result \<Rightarrow>
          (case redirect_object result of
             None \<Rightarrow> createRoute_rec None location None
           | Some re \<Rightarrow>
               if truthy (l_name re) then
                 (case redirect_assert d t (the (l_name re)) of
                    Some e \<Rightarrow> Some (Inl e)
                  | None \<Rightarrow>
                      match_rec (RawLoc (redirect_named_target re location)) None
                        (Some location))
               else if truthy (l_path re) then
                 match_rec (RawLoc (redirect_path_target d re record location)) None
                   (Some (redirect_path_from d re record location))
               else createRoute_rec None location None))"

definition alias_body ::
  "(RawLocation \<Rightarrow> Route option \<Rightarrow> Location option \<Rightarrow> match_result)
   \<Rightarrow> (RouteRecord option \<Rightarrow> Location \<Rightarrow> Location option \<Rightarrow> match_result)
   \<Rightarrow> deps \<Rightarrow> RouteRecord \<Rightarrow> Location \<Rightarrow> string \<Rightarrow> match_result" where
  "alias_body match_rec createRoute_rec d record location matchAs =
     (let aliasedPath = fst (fillParams d matchAs (l_params location))
      in case match_rec
                (RawLoc (emptyLocation \<lparr> l_normalized := True, l_path := Some aliasedPath \<rparr>))
                None None of
           None \<Rightarrow> None
         | Some (Inl e) \<Rightarrow> Some (Inl e)
         | Some (Inr aliasedMatch) \<Rightarrow>
             (let matched = r_matched aliasedMatch;
                  aliasedRecord = (if matched = [] then None else Some (last matched))
              in createRoute_rec aliasedRecord
                   (location \<lparr> l_params := Some (r_params aliasedMatch) \<rparr>) None))"

definition createRoute_body ::
  "(RouteRecord \<Rightarrow> Location \<Rightarrow> match_result)
   \<Rightarrow> (RouteRecord \<Rightarrow> Location \<Rightarrow> string \<Rightarrow> match_result)
   \<Rightarrow> deps \<Rightarrow> RouteRecord option \<Rightarrow> Location \<Rightarrow> Location option \<Rightarrow> match_result" where
  "createRoute_body redirect_rec alias_rec d record location redirectedFrom =
     (case record of
        None \<Rightarrow> Some (Inr (createRoute d None location redirectedFrom))
      | Some r \<Rightarrow>
          if has_redirect r then
            redirect_rec r (case redirectedFrom of Some rf \<Rightarrow> rf | None \<Rightarrow> location)
          else if truthy (rr_matchAs r) then alias_rec r location (the (rr_matchAs r))
          else Some (Inr (createRoute d record location redirectedFrom)))"

datatype matcher_call =
    MatchCall RawLocation "Route option" "Location option"
  | RedirectCall RouteRecord Location
  | AliasCall RouteRecord Location string
  | CreateRouteCall "RouteRecord option" Location "Location option"

primrec matcher_run :: "nat \<Rightarrow> deps \<Rightarrow> tables \<Rightarrow> matcher_call \<Rightarrow> match_result" where
  "matcher_run 0 d t c = None"
| "matcher_run (Suc n) d t c =
     (case c of
        MatchCall raw currentRoute redirectedFrom \<Rightarrow>
          match_body (\<lambda>r l rf. matcher_run n d t (CreateRouteCall r l rf))
            d t raw currentRoute redirectedFrom
      | RedirectCall record location \<Rightarrow>
          redirect_body (\<lambda>raw cur rf. matcher_run n d t (MatchCall raw cur rf))
            (\<lambda>r l rf. matcher_run n d t (CreateRouteCall r l rf)) d t record location
      | AliasCall record location matchAs \<Rightarrow>
          alias_body (\<lambda>raw cur rf. matcher_run n d t (MatchCall raw cur rf))
            (\<lambda>r l rf. matcher_run n d t (CreateRouteCall r l rf)) d record location matchAs
      | CreateRouteCall record location redirectedFrom \<Rightarrow>
          createRoute_body (\<lambda>r l. matcher_run n d t (RedirectCall r l))
            (\<lambda>r l m. matcher_run n d t (AliasCall r l m)) d record location redirectedFrom)"

declare matcher_run.simps [simp del]

definition match ::
  "nat \<Rightarrow> deps \<Rightarrow> tables \<Rightarrow> RawLocation \<Rightarrow> Route option \<Rightarrow> Location option \<Rightarrow> match_result" where
  "match n d t raw currentRoute redirectedFrom =
     matcher_run n d t (MatchCall raw currentRoute redirectedFrom)"

definition redirect ::
  "nat \<Rightarrow> deps \<Rightarrow> tables \<Rightarrow> RouteRecord \<Rightarrow> Location \<Rightarrow> match_result" where
  "redirect n d t record location = matcher_run n d t (RedirectCall record location)"

definition alias' ::
  "nat \<Rightarrow> deps \<Rightarrow> tables \<Rightarrow> RouteRecord \<Rightarrow> Location \<Rightarrow> string \<Rightarrow> match_result" where
  "alias' n d t record location matchAs = matcher_run n d t (AliasCall record location matchAs)"

definition createRoute' ::
  "nat \<Rightarrow> deps \<Rightarrow> tables \<Rightarrow> RouteRecord option \<Rightarrow> Location \<Rightarrow> Location option \<Rightarrow> match_result" where
  "createRoute' n d t record location redirectedFrom =
     matcher_run n d t (CreateRouteCall record location redirectedFrom)"

text \<open>
  A stand-in for path-to-regexp on patterns without parameters, for running the model on
  concrete route tables: the pattern \<^verbatim>\<open>*\<close> matches every path and captures it under the
  key \<^verbatim>\<open>0\<close>; any other pattern is taken as static and matches itself, with or without a
  trailing slash. Filling a static pattern gives the pattern; filling \<^verbatim>\<open>*\<close> needs the
  param \<^verbatim>\<open>0\<close>.
\<close>

definition static_Regexp :: "string \<Rightarrow> PathToRegexpOptions \<Rightarrow> RouteRegExp" where
  "static_Regexp pattern opts =
     (if pattern = ''*''
      then \<lparr> rx_keys = [\<lparr> k_name = KIndex 0, k_optional = False \<rparr>],
             rx_match = (\<lambda>path. Some [Some path]) \<rparr>
      else \<lparr> rx_keys = [],
             rx_match = (\<lambda>path. if path = pattern \<or> path = pattern @ ''/'' then Some [] else None) \<rparr>)"

definition static_compile :: "string \<Rightarrow> Params \<Rightarrow> string option" where
  "static_compile pattern params =
     (if pattern = ''*''
      then (case params ''0'' of Some (Some v) \<Rightarrow> Some v | _ \<Rightarrow> None)
      else Some pattern)"

definition static_deps :: deps where
  "static_deps =
     \<lparr> Regexp = static_Regexp, Regexp_compile = static_compile,
       decodeURIComponent = Some, encodeURIComponent = (\<lambda>s. s),
       parseQuery = (\<lambda>s. Some []), stringifyQuery_option = None,
       redirectFn = (\<lambda>f route. Inr ROther), production = True \<rparr>"

definition route_config :: "string \<Rightarrow> RouteConfig" where
  "route_config p = RouteConfig p None None None None [] [] None None None None"

text \<open>A named location, for running the model: \<^verbatim>\<open>{ name: 'user', params: { id: '42' } }\<close>.\<close>

definition named_location :: Location where
  "named_location =
     emptyLocation \<lparr> l_name := Some ''user'', l_params := Some [''id'' \<mapsto> Some ''42''] \<rparr>"

section \<open>Example configurations\<close>

text \<open>
  The configurations \<^verbatim>\<open>[{path:'/a', redirect:'/b'}, {path:'/b', component: X}]\<close>, the records
  and tables that \<^verbatim>\<open>createRouteMap\<close> builds from them with the stand-in for path-to-regexp,
  the normalised location of a path without query and hash, and the route that matching
  \<^verbatim>\<open>'/a'\<close> returns.
\<close>

definition example1 :: "RouteConfig list" where
  "example1 =
     [RouteConfig ''/a'' None None None (Some (RedirectTo (RawString ''/b''))) [] [] None None
        None None,
      RouteConfig ''/b'' None (Some ''X'') None None [] [] None None None None]"

definition no_options :: PathToRegexpOptions where
  "no_options = \<lparr> sensitive = None, strict = None, end_opt = None \<rparr>"

definition example1_a :: RouteRecord where
  "example1_a = RouteRecord 0 ''/a'' (static_Regexp ''/a'' no_options)
     [(''default'', None)] None None None (Some (RedirectTo (RawString ''/b''))) None None"

definition example1_b :: RouteRecord where
  "example1_b = RouteRecord 1 ''/b'' (static_Regexp ''/b'' no_options)
     [(''default'', Some ''X'')] None None None None None None"

definition example1_tables :: tables where
  "example1_tables =
     \<lparr> pathList = [''/a'', ''/b''], pathMap = [''/a'' \<mapsto> example1_a, ''/b'' \<mapsto> example1_b],
       nameMap = Map.empty, alloc = 2 \<rparr>"

definition path_location :: "string \<Rightarrow> Location" where
  "path_location p = emptyLocation \<lparr> l_normalized := True, l_path := Some p,
     l_query := Some [], l_hash := Some [] \<rparr>"

definition example1_route :: Route where
  "example1_route =
     createRoute static_deps (Some example1_b)
       (path_location ''/b'' \<lparr> l_params := Some Map.empty \<rparr>)
       (Some (path_location ''/a'' \<lparr> l_params := Some Map.empty \<rparr>))"

section \<open>Routes that end in a plain record\<close>

text \<open>
  A route is plain when its matched chain is empty, or is the chain of ancestors of its
  deepest record and that record neither redirects nor is an alias.
\<close>

definition plain_route :: "Route \<Rightarrow> bool" where
  "plain_route route =
     (r_matched route = []
      \<or> (r_matched route = formatMatch (last (r_matched route))
          \<and> \<not> has_redirect (last (r_matched route))
          \<and> \<not> truthy (rr_matchAs (last (r_matched route)))))"

section \<open>The alias example\<close>

text \<open>
  The configuration \<^verbatim>\<open>{path:'/a', component:Z, alias:'/b'}\<close>: the canonical record, the alias
  record (without a component of its own, with \<^verbatim>\<open>matchAs\<close> \<^verbatim>\<open>/a\<close>), the tables, the route of
  the internal match of \<^verbatim>\<open>/a\<close> and the route that matching \<^verbatim>\<open>'/b'\<close> returns.
\<close>

definition example5 :: "RouteConfig list" where
  "example5 = [RouteConfig ''/a'' None (Some ''Z'') None None [''/b''] [] None None None None]"

definition example5_a :: RouteRecord where
  "example5_a = RouteRecord 0 ''/a'' (static_Regexp ''/a'' no_options)
     [(''default'', Some ''Z'')] None None None None None None"

definition example5_b :: RouteRecord where
  "example5_b = RouteRecord 1 ''/b'' (static_Regexp ''/b'' no_options)
     [(''default'', None)] None None (Some ''/a'') None None None"

definition example5_tables :: tables where
  "example5_tables =
     \<lparr> pathList = [''/a'', ''/b''], pathMap = [''/a'' \<mapsto> example5_a, ''/b'' \<mapsto> example5_b],
       nameMap = Map.empty, alloc = 2 \<rparr>"

definition example5_canonical :: Route where
  "example5_canonical =
     createRoute static_deps (Some example5_a)
       (emptyLocation \<lparr> l_normalized := True, l_path := Some ''/a'', l_params := Some Map.empty \<rparr>)
       None"

definition example5_route :: Route where
  "example5_route =
     createRoute static_deps (Some example5_a)
       (path_location ''/b'' \<lparr> l_params := Some Map.empty \<rparr>) None"

section \<open>Chains of path redirects\<close>

text \<open>
  The redirect object of a record that redirects by path, for the location \<open>origin\<close> that
  \<^verbatim>\<open>redirect\<close> is called with: the redirect option is a non-empty string, an object, or a
  function that returns a string or an object, and the object (for a string \<open>q\<close> the object
  \<^verbatim>\<open>{ path: q }\<close>) has a path and no name.
\<close>

definition path_redirect :: "deps \<Rightarrow> RouteRecord \<Rightarrow> Location \<Rightarrow> Location option" where
  "path_redirect d rcd origin =
     (let spec = (case rr_redirect rcd of
                    None \<Rightarrow> None
                  | Some (RedirectTo (RawString q)) \<Rightarrow>
                      if q \<noteq> [] then Some (emptyLocation \<lparr> l_path := Some q \<rparr>) else None
                  | Some (RedirectTo (RawLoc l)) \<Rightarrow> Some l
                  | Some (RedirectFn f) \<Rightarrow>
                      (case redirectFn d f (createRoute d (Some rcd) origin None) of
                         Inr (RString q) \<Rightarrow> Some (emptyLocation \<lparr> l_path := Some q \<rparr>)
                       | Inr (RObject l) \<Rightarrow> Some l
                       | _ \<Rightarrow> None))
      in case spec of
           None \<Rightarrow> None
         | Some re \<Rightarrow> if \<not> truthy (l_name re) \<and> truthy (l_path re) then Some re else None)"

text \<open>
  The location that a hop hands to \<^verbatim>\<open>match\<close>, in the words of the specification: the path
  of the redirect object, resolved relative to the parent of the redirecting record and
  filled with the params, and the query and the hash, each taken from the redirect object
  where it has the field and from the original location otherwise.
\<close>

definition chain_target :: "deps \<Rightarrow> Location \<Rightarrow> RouteRecord \<Rightarrow> Location \<Rightarrow> Location" where
  "chain_target d re rcd origin =
     \<lparr> l_normalized = True, l_name = None,
       l_path = Some (fst (fillParams d
                  (resolvePath (the (l_path re))
                     (case rr_parent rcd of Some p \<Rightarrow> rr_path p | None \<Rightarrow> ''/'') True)
                  (case l_params re of Some ps \<Rightarrow> Some ps | None \<Rightarrow> l_params origin))),
       l_hash = (case l_hash re of Some h \<Rightarrow> Some h | None \<Rightarrow> l_hash origin),
       l_query = (case l_query re of Some q \<Rightarrow> Some q | None \<Rightarrow> l_query origin),
       l_params = None, l_append = False, l_replace = False \<rparr>"

text \<open>
  The location that a hop passes on as \<^verbatim>\<open>redirectedFrom\<close>: the original location, whose params
  have lost the key \<^verbatim>\<open>0\<close> when they were the params given to \<^verbatim>\<open>fillParams\<close>.
\<close>

definition chain_origin :: "Location \<Rightarrow> Location \<Rightarrow> Location" where
  "chain_origin re origin =
     (case l_params re of
        Some ps \<Rightarrow> origin
      | None \<Rightarrow>
          (case l_params origin of
             None \<Rightarrow> origin
           | Some ps \<Rightarrow> origin \<lparr> l_params := Some (ps(''0'' := None)) \<rparr>))"

text \<open>
  A chain of records linked by path redirects, as \<^verbatim>\<open>match\<close> follows it from a normalised
  location \<open>loc\<close> that has a path and no name, called with the \<^verbatim>\<open>redirectedFrom\<close> argument
  \<open>rf\<close>. The chain ends (\<open>chain_end\<close>) at the first record of the path list whose pattern
  matches the path when that record does not redirect (it may be an alias): the chain
  gives that record, the location with the params of the match, and the
  \<^verbatim>\<open>redirectedFrom\<close> argument. It makes a hop (\<open>chain_hop\<close>) when that record redirects by
  path. The number counts the hops.
\<close>

inductive path_redirect_chain ::
  "deps \<Rightarrow> tables \<Rightarrow> Location \<Rightarrow> Location option \<Rightarrow> nat
   \<Rightarrow> RouteRecord \<Rightarrow> Location \<Rightarrow> Location option \<Rightarrow> bool"
  for d :: deps and t :: tables where
  chain_end:
    "l_normalized loc \<Longrightarrow> \<not> truthy (l_name loc) \<Longrightarrow> truthy (l_path loc) \<Longrightarrow>
     match_loop d t (pathList t) (the (l_path loc)) = Inr (Some (rcd, params)) \<Longrightarrow>
     \<not> has_redirect rcd \<Longrightarrow>
     path_redirect_chain d t loc rf 0 rcd (loc \<lparr> l_params := Some params \<rparr>) rf"
| chain_hop:
    "l_normalized loc \<Longrightarrow> \<not> truthy (l_name loc) \<Longrightarrow> truthy (l_path loc) \<Longrightarrow>
     match_loop d t (pathList t) (the (l_path loc)) = Inr (Some (rcd, params)) \<Longrightarrow>
     origin = (case rf of Some x \<Rightarrow> x | None \<Rightarrow> loc \<lparr> l_params := Some params \<rparr>) \<Longrightarrow>
     path_redirect d rcd origin = Some re \<Longrightarrow>
     path_redirect_chain d t (chain_target d re rcd origin) (Some (chain_origin re origin))
       k rcd' loc' rf' \<Longrightarrow>
     path_redirect_chain d t loc rf (Suc k) rcd' loc' rf'"

section \<open>The example of a redirect to an alias\<close>

text \<open>
  The configurations \<^verbatim>\<open>[{path:'/a', redirect:'/b'}, {path:'/c', component: X, alias:'/b'}]\<close>:
  the record of \<^verbatim>\<open>/a\<close> is that of the first example; the canonical record of \<^verbatim>\<open>/c\<close>, the
  alias record of \<^verbatim>\<open>/b\<close>, the tables, the route of the internal match of \<^verbatim>\<open>/c\<close> and the
  route that matching \<^verbatim>\<open>'/a'\<close> returns.
\<close>

definition example6 :: "RouteConfig list" where
  "example6 =
     [RouteConfig ''/a'' None None None (Some (RedirectTo (RawString ''/b''))) [] [] None None
        None None,
      RouteConfig ''/c'' None (Some ''X'') None None [''/b''] [] None None None None]"

definition example6_c :: RouteRecord where
  "example6_c = RouteRecord 1 ''/c'' (static_Regexp ''/c'' no_options)
     [(''default'', Some ''X'')] None None None None None None"

definition example6_b :: RouteRecord where
  "example6_b = RouteRecord 2 ''/b'' (static_Regexp ''/b'' no_options)
     [(''default'', None)] None None (Some ''/c'') None None None"

definition example6_tables :: tables where
  "example6_tables =
     \<lparr> pathList = [''/a'', ''/c'', ''/b''],
       pathMap = [''/a'' \<mapsto> example1_a, ''/c'' \<mapsto> example6_c, ''/b'' \<mapsto> example6_b],
       nameMap = Map.empty, alloc = 3 \<rparr>"

definition example6_canonical :: Route where
  "example6_canonical =
     createRoute static_deps (Some example6_c)
       (emptyLocation \<lparr> l_normalized := True, l_path := Some ''/c'', l_params := Some Map.empty \<rparr>)
       None"

definition example6_route :: Route where
  "example6_route =
     createRoute static_deps (Some example6_c)
       (path_location ''/b'' \<lparr> l_params := Some Map.empty \<rparr>) None"

section \<open>The transition engine (history/base.js)\<close>

subsection \<open>Failures, values and events\<close>

text \<open>
  Modelled from the spec: the constructors and tests of navigation failures
  (util/errors.js) are not among the source files. The spec (section 7) names four kinds
  of \<^verbatim>\<open>NavigationFailure\<close>: \<^verbatim>\<open>duplicated\<close>, \<^verbatim>\<open>cancelled\<close>, \<^verbatim>\<open>redirected\<close> and \<^verbatim>\<open>aborted\<close>; a failure is
  created from the current route and the target route, which are kept here by their
  addresses. Every other value given to \<^verbatim>\<open>abort\<close> is an error value passed to \<^verbatim>\<open>next\<close> or a
  value that a guard has thrown. \<^verbatim>\<open>isError\<close> holds of navigation failures and of \<^verbatim>\<open>Error\<close>
  objects; \<^verbatim>\<open>isNavigationFailure(err, type)\<close> holds of the failures, of the given kind when a
  kind is given.
\<close>

datatype NavigationFailureType = redirected | aborted | cancelled | duplicated

datatype abort_value = NavigationFailure NavigationFailureType nat nat | Thrown thrown

definition isError :: "abort_value \<Rightarrow> bool" where
  "isError err =
     (case err of
        NavigationFailure k from to \<Rightarrow> True
      | Thrown (Error m) \<Rightarrow> True
      | Thrown (NonError v) \<Rightarrow> False
      | Thrown (Falsy v) \<Rightarrow> False)"

definition isNavigationFailure :: "abort_value \<Rightarrow> NavigationFailureType option \<Rightarrow> bool" where
  "isNavigationFailure err type =
     (case err of
        NavigationFailure k from to \<Rightarrow> (case type of None \<Rightarrow> True | Some k' \<Rightarrow> k = k')
      | Thrown x \<Rightarrow> False)"

text \<open>
  The values that a guard can pass to its \<^verbatim>\<open>next\<close> callback (\<^verbatim>\<open>to: any\<close>): \<^verbatim>\<open>undefined\<close>,
  \<^verbatim>\<open>null\<close>, a boolean, a number, a function (named by a label), an \<^verbatim>\<open>Error\<close> object (with its
  message), a string, or a location object.
\<close>

datatype next_arg =
    NUndefined | NNull | NBool bool | NNumber int | NFunction string | NError string
  | NString string | NObject Location

text \<open>
  What a guard does when it is called: it calls \<^verbatim>\<open>next\<close> with a value before it returns,
  it throws before it has called \<^verbatim>\<open>next\<close>, or it returns and keeps \<^verbatim>\<open>next\<close> for later.
\<close>

datatype behaviour = Calls next_arg | Throws thrown | Suspends

text \<open>
  The functions of the queue: a guard (a global hook, a \<^verbatim>\<open>beforeEnter\<close> guard or a bound
  component guard, named by the label of the guard), the \<^verbatim>\<open>routeEnterGuard\<close> that
  \<^verbatim>\<open>bindEnterGuard\<close> wraps around a \<^verbatim>\<open>beforeRouteEnter\<close> guard for a record (by its address) and
  a view key, and the function that \<^verbatim>\<open>resolveAsyncComponents\<close> returns for the activated
  records (by their addresses).
\<close>

datatype hook = Guard string | EnterGuard string nat string | ResolveAsync "nat list"

datatype nav_kind = Plain | Push | Replace

text \<open>
  What the engine does to the world around it is recorded as a trace of events: the
  calls of \<^verbatim>\<open>ensureURL\<close>, of the error observers and of \<^verbatim>\<open>console.error\<close>, of the guards (with
  the addresses of the target and of the current route), the registration of a
  post-entry callback, and the calls of the callbacks of a transition.
\<close>

datatype event =
    EnsureURL bool
  | ErrorCb string abort_value
  | ConsoleError abort_value
  | Invoke hook nat nat
  | EnteredCb nat string string
  | Listener string nat
  | PushState string
  | ReplaceState string
  | UserComplete string nat
  | UserAbort string abort_value
  | AfterHook string nat nat
  | ReadyCb string nat
  | ReadyErrorCb string abort_value
  | HandleRouteEntered nat

subsection \<open>State\<close>

text \<open>
  The fields of \<^verbatim>\<open>History\<close> that the engine reads and writes, the next free route address
  and the trace. \<open>h_cb\<close> is the listener set by \<^verbatim>\<open>listen\<close>.
\<close>

record History =
  h_current :: Route
  h_pending :: "Route option"
  h_ready :: bool
  h_cb :: "string option"
  h_readyCbs :: "string list"
  h_readyErrorCbs :: "string list"
  h_errorCbs :: "string list"
  h_fresh :: nat
  h_trace :: "event list"

definition emit :: "event list \<Rightarrow> History \<Rightarrow> History" where
  "emit evs st = st \<lparr> h_trace := h_trace st @ evs \<rparr>"

text \<open>
  The result of a call into the engine: the call has returned (\<open>Finished\<close>), it has
  thrown, it has ended by calling \<^verbatim>\<open>this.push(to)\<close> or \<^verbatim>\<open>this.replace(to)\<close> (\<open>Navigate\<close>: the call
  is the last action of the callback of a guard, and is carried out by \<open>navigate\<close>
  below), or a guard has returned without calling \<^verbatim>\<open>next\<close> (\<open>Suspended\<close>, with the callback
  that the guard holds and may call later). A call of \<^verbatim>\<open>push\<close> or \<^verbatim>\<open>replace\<close> that is made while
  the guard is running inside the \<^verbatim>\<open>try\<close> block of the iterator carries the handler of that
  block, which receives what the call throws.
\<close>

datatype outcome =
    Finished
  | Raised thrown
  | Navigate nav_kind RawLocation "(thrown \<Rightarrow> History \<Rightarrow> History) option"
  | Suspended "next_arg \<Rightarrow> History \<Rightarrow> outcome \<times> History"

type_synonym result = "outcome \<times> History"

text \<open>
  What a component definition has under the option names \<^verbatim>\<open>beforeRouteLeave\<close>,
  \<^verbatim>\<open>beforeRouteUpdate\<close> and \<^verbatim>\<open>beforeRouteEnter\<close> (\<^verbatim>\<open>def.options[key]\<close> after \<^verbatim>\<open>_Vue.extend\<close>): nothing,
  one guard, or an array of guards.
\<close>

datatype component_hook = NoHook | OneHook string | HookArray "string list"

text \<open>
  The surroundings of the engine: the matcher of the router (\<open>Inl\<close> when \<^verbatim>\<open>match\<close> throws),
  the route equality \<^verbatim>\<open>isSameRoute\<close> (util/route.js, not among the source files), what the
  guards do when called with a target and a current route, the options of the
  components, the instance registry of the records as the view renderer has left it,
  the hooks registered on the router, and whether the router has an app.
\<close>

record env =
  router_match :: "RawLocation \<Rightarrow> Route \<Rightarrow> thrown + Route"
  isSameRoute :: "Route \<Rightarrow> Route \<Rightarrow> bool"
  respond :: "string \<Rightarrow> Route \<Rightarrow> Route \<Rightarrow> behaviour"
  resolveAsync :: "nat list \<Rightarrow> Route \<Rightarrow> Route \<Rightarrow> behaviour"
  component_option :: "string \<Rightarrow> string \<Rightarrow> component_hook"
  has_instance :: "RouteRecord \<Rightarrow> string \<Rightarrow> bool"
  beforeHooks :: "string option list"
  resolveHooks :: "string option list"
  afterHooks :: "string option list"
  router_app :: bool

subsection \<open>Extracting the guards of the components\<close>

text \<open>
  Modelled from the spec: \<^verbatim>\<open>flatMapComponents\<close> and \<^verbatim>\<open>flatten\<close> (util/resolve-components.js)
  are not among the source files. The spec (section 4.4, steps 3 and 5) speaks of the
  per-component guards of a list of records: \<^verbatim>\<open>flatMapComponents\<close> applies a function to
  every component of every record, record by record and view by view in the order of
  the keys of \<^verbatim>\<open>components\<close>, with the definition, the instance, the record and the key, and
  returns the results in one list; \<^verbatim>\<open>flatten\<close> concatenates the arrays among the elements
  of a list. A result is one value (possibly \<^verbatim>\<open>undefined\<close>) or an array of values.
\<close>

datatype 'a item = Item 'a | Items "'a list"

definition flatten :: "'a item list \<Rightarrow> 'a list" where
  "flatten xs = concat (map (\<lambda>x. case x of Item v \<Rightarrow> [v] | Items vs \<Rightarrow> vs) xs)"

definition flatMapComponents ::
  "env \<Rightarrow> RouteRecord list \<Rightarrow> (string option \<Rightarrow> bool \<Rightarrow> RouteRecord \<Rightarrow> string \<Rightarrow> 'a) \<Rightarrow> 'a list" where
  "flatMapComponents e matched fn =
     concat (map (\<lambda>m. map (\<lambda>(key, def). fn def (has_instance e m key) m key) (rr_components m))
               matched)"

text \<open>
  \<^verbatim>\<open>extractGuard(def, key)\<close>; a record without a component for a view has no guard.
\<close>

definition extractGuard :: "env \<Rightarrow> string option \<Rightarrow> string \<Rightarrow> component_hook" where
  "extractGuard e def key = (case def of None \<Rightarrow> NoHook | Some c \<Rightarrow> component_option e c key)"

definition extractGuards ::
  "env \<Rightarrow> RouteRecord list \<Rightarrow> string
   \<Rightarrow> (string \<Rightarrow> bool \<Rightarrow> RouteRecord \<Rightarrow> string \<Rightarrow> hook option) \<Rightarrow> bool \<Rightarrow> hook option list" where
  "extractGuards e records name bind reverse =
     (let guards = flatMapComponents e records
            (\<lambda>def instance m key.
               case extractGuard e def name of
                 NoHook \<Rightarrow> Item None
               | OneHook g \<Rightarrow> Item (bind g instance m key)
               | HookArray gs \<Rightarrow> Items (map (\<lambda>g. bind g instance m key) gs))
      in flatten (if reverse then rev guards else guards))"

definition bindGuard :: "string \<Rightarrow> bool \<Rightarrow> RouteRecord \<Rightarrow> string \<Rightarrow> hook option" where
  "bindGuard g instance m key = (if instance then Some (Guard g) else None)"

definition bindEnterGuard :: "string \<Rightarrow> bool \<Rightarrow> RouteRecord \<Rightarrow> string \<Rightarrow> hook option" where
  "bindEnterGuard g instance m key = Some (EnterGuard g (rr_id m) key)"

definition extractLeaveGuards :: "env \<Rightarrow> RouteRecord list \<Rightarrow> hook option list" where
  "extractLeaveGuards e records = extractGuards e records ''beforeRouteLeave'' bindGuard True"

definition extractUpdateHooks :: "env \<Rightarrow> RouteRecord list \<Rightarrow> hook option list" where
  "extractUpdateHooks e records = extractGuards e records ''beforeRouteUpdate'' bindGuard False"

definition extractEnterGuards :: "env \<Rightarrow> RouteRecord list \<Rightarrow> hook option list" where
  "extractEnterGuards e records =
     extractGuards e records ''beforeRouteEnter'' bindEnterGuard False"

subsection \<open>Running a queue\<close>

text \<open>
  Modelled from the spec: \<^verbatim>\<open>runQueue\<close> (util/async.js) is not among the source files. The
  spec (section 4.4, step 4) runs a queue as a strict sequential continuation chain: the
  function \<open>fn\<close> is given each entry of the queue with a continuation, the next entry is
  only reached when that continuation is called, and the callback \<open>cb\<close> is called when the
  queue is exhausted. The queue is an array of \<^verbatim>\<open>?NavigationGuard\<close>: an empty entry is
  skipped. The continuation takes the value it is called with and makes no use of it.
\<close>

fun runQueue ::
  "hook option list \<Rightarrow> (hook \<Rightarrow> (next_arg \<Rightarrow> History \<Rightarrow> result) \<Rightarrow> History \<Rightarrow> result)
   \<Rightarrow> (History \<Rightarrow> result) \<Rightarrow> History \<Rightarrow> result" where
  "runQueue [] fn cb st = cb st"
| "runQueue (None # queue) fn cb st = runQueue queue fn cb st"
| "runQueue (Some h # queue) fn cb st = fn h (\<lambda>v. runQueue queue fn cb) st"

subsection \<open>Confirming a transition\<close>

text \<open>
  What the closures of \<^verbatim>\<open>confirmTransition\<close> capture: the target route, the current route
  at the time of the call, and the two callbacks.
\<close>

record transition =
  t_route :: Route
  t_current :: Route
  t_onComplete :: "Route \<Rightarrow> History \<Rightarrow> History"
  t_onAbort :: "(abort_value \<Rightarrow> History \<Rightarrow> History) option"

text \<open>\<^verbatim>\<open>ensureURL\<close> is implemented by the subclasses; the call is recorded.\<close>

definition ensureURL :: "bool \<Rightarrow> History \<Rightarrow> History" where
  "ensureURL push st = emit [EnsureURL push] st"

definition abort :: "transition \<Rightarrow> abort_value \<Rightarrow> History \<Rightarrow> History" where
  "abort tr err st =
     (let st1 = (if \<not> isNavigationFailure err None \<and> isError err
                 then (if h_errorCbs st \<noteq> []
                       then emit (map (\<lambda>cb. ErrorCb cb err) (h_errorCbs st)) st
                       else emit [ConsoleError err] st)
                 else st)
      in case t_onAbort tr of None \<Rightarrow> st1 | Some onAbort \<Rightarrow> onAbort err st1)"

definition createNavigationFailure :: "NavigationFailureType \<Rightarrow> transition \<Rightarrow> abort_value" where
  "createNavigationFailure k tr = NavigationFailure k (r_ref (t_current tr)) (r_ref (t_route tr))"

text \<open>
  \<^verbatim>\<open>typeof to === 'string' || (typeof to === 'object' && (typeof to.path === 'string' ||
  typeof to.name === 'string'))\<close>, for the values other than \<^verbatim>\<open>null\<close>, errors and \<^verbatim>\<open>false\<close>.
\<close>

definition is_redirect :: "next_arg \<Rightarrow> bool" where
  "is_redirect to =
     (case to of
        NString s \<Rightarrow> True
      | NObject l \<Rightarrow> l_path l \<noteq> None \<or> l_name l \<noteq> None
      | _ \<Rightarrow> False)"

definition redirect_call :: "next_arg \<Rightarrow> outcome" where
  "redirect_call to =
     (case to of
        NObject l \<Rightarrow> Navigate (if l_replace l then Replace else Push) (RawLoc l) None
      | NString s \<Rightarrow> Navigate Push (RawString s) None
      | _ \<Rightarrow> Finished)"

text \<open>
  The callback \<^verbatim>\<open>(to: any) => { ... }\<close> that the iterator hands to a guard. For \<^verbatim>\<open>null\<close> the
  test \<^verbatim>\<open>typeof to.path\<close> throws a \<^verbatim>\<open>TypeError\<close>.
\<close>

definition proceed ::
  "transition \<Rightarrow> (next_arg \<Rightarrow> History \<Rightarrow> result) \<Rightarrow> next_arg \<Rightarrow> History \<Rightarrow> result" where
  "proceed tr nxt to st =
     (if to = NBool False then
        (Finished, abort tr (createNavigationFailure aborted tr) (ensureURL True st))
      else case to of
        NError m \<Rightarrow> (Finished, abort tr (Thrown (Error m)) (ensureURL True st))
      | NNull \<Rightarrow> (Raised (Error ''TypeError''), st)
      | _ \<Rightarrow>
          if is_redirect to then
            (redirect_call to, abort tr (createNavigationFailure redirected tr) st)
          else nxt to st)"

text \<open>
  The function that a guard of the queue receives as \<^verbatim>\<open>next\<close>: the callback of the
  iterator, or for a \<^verbatim>\<open>routeEnterGuard\<close> the function that first queues a function value
  on \<^verbatim>\<open>match.enteredCbs[key]\<close>.
\<close>

definition next_callback ::
  "transition \<Rightarrow> hook \<Rightarrow> (next_arg \<Rightarrow> History \<Rightarrow> result) \<Rightarrow> next_arg \<Rightarrow> History \<Rightarrow> result" where
  "next_callback tr h nxt to st =
     (case h of
        EnterGuard g m key \<Rightarrow>
          (case to of
             NFunction f \<Rightarrow> proceed tr nxt to (emit [EnteredCb m key f] st)
           | _ \<Rightarrow> proceed tr nxt to st)
      | _ \<Rightarrow> proceed tr nxt to st)"

definition behaviour_of :: "env \<Rightarrow> hook \<Rightarrow> Route \<Rightarrow> Route \<Rightarrow> behaviour" where
  "behaviour_of e h to from =
     (case h of
        Guard g \<Rightarrow> respond e g to from
      | EnterGuard g m key \<Rightarrow> respond e g to from
      | ResolveAsync ms \<Rightarrow> resolveAsync e ms to from)"

text \<open>
  The iterator. \<^verbatim>\<open>this.pending !== route\<close> compares two objects: the addresses. An
  exception that leaves the call of the guard is caught and given to \<^verbatim>\<open>abort\<close>.
\<close>

definition is_pending :: "History \<Rightarrow> Route \<Rightarrow> bool" where
  "is_pending st route =
     (case h_pending st of None \<Rightarrow> False | Some p \<Rightarrow> r_ref p = r_ref route)"

definition iterator ::
  "env \<Rightarrow> transition \<Rightarrow> hook \<Rightarrow> (next_arg \<Rightarrow> History \<Rightarrow> result) \<Rightarrow> History \<Rightarrow> result" where
  "iterator e tr h nxt st =
     (if \<not> is_pending st (t_route tr) then
        (Finished, abort tr (createNavigationFailure cancelled tr) st)
      else
        let st1 = emit [Invoke h (r_ref (t_route tr)) (r_ref (t_current tr))] st
        in case behaviour_of e h (t_route tr) (t_current tr) of
             Throws x \<Rightarrow> (Finished, abort tr (Thrown x) st1)
           | Suspends \<Rightarrow> (Suspended (next_callback tr h nxt), st1)
           | Calls to \<Rightarrow>
               (case next_callback tr h nxt to st1 of
                  (Raised x, st2) \<Rightarrow> (Finished, abort tr (Thrown x) st2)
                | (Navigate k loc None, st2) \<Rightarrow>
                    (Navigate k loc (Some (\<lambda>x. abort tr (Thrown x))), st2)
                | r \<Rightarrow> r))"

text \<open>A JavaScript array read at an index that may be \<^verbatim>\<open>-1\<close>.\<close>

definition nth_int :: "'a list \<Rightarrow> int \<Rightarrow> 'a option" where
  "nth_int xs i = (if i < 0 then None else nth_opt xs (nat i))"

definition hook_of :: "string option \<Rightarrow> hook option" where
  "hook_of g = map_option Guard g"

text \<open>The two queues of \<^verbatim>\<open>confirmTransition\<close>.\<close>

definition first_queue :: "env \<Rightarrow> RouteRecord list \<Rightarrow> RouteRecord list \<Rightarrow> hook option list" where
  "first_queue e current_matched route_matched =
     (let q = resolveQueue current_matched route_matched
      in extractLeaveGuards e (deactivated q)
         @ map hook_of (beforeHooks e)
         @ extractUpdateHooks e (updated q)
         @ map (\<lambda>m. hook_of (rr_beforeEnter m)) (activated q)
         @ [Some (ResolveAsync (map rr_id (activated q)))])"

definition second_queue :: "env \<Rightarrow> RouteRecord list \<Rightarrow> RouteRecord list \<Rightarrow> hook option list" where
  "second_queue e current_matched route_matched =
     extractEnterGuards e (activated (resolveQueue current_matched route_matched))
     @ map hook_of (resolveHooks e)"

text \<open>The callback of the second queue: the last check and the commit.\<close>

definition commit :: "env \<Rightarrow> transition \<Rightarrow> History \<Rightarrow> result" where
  "commit e tr st =
     (if \<not> is_pending st (t_route tr) then
        (Finished, abort tr (createNavigationFailure cancelled tr) st)
      else
        let st1 = t_onComplete tr (t_route tr) (st \<lparr> h_pending := None \<rparr>)
        in (Finished,
            if router_app e then emit [HandleRouteEntered (r_ref (t_route tr))] st1 else st1))"

definition is_duplicate :: "env \<Rightarrow> Route \<Rightarrow> Route \<Rightarrow> bool" where
  "is_duplicate e route cur =
     (let lastRouteIndex = int (length (r_matched route)) - 1;
          lastCurrentIndex = int (length (r_matched cur)) - 1
      in isSameRoute e route cur
         \<and> lastRouteIndex = lastCurrentIndex
         \<and> map_option rr_id (nth_int (r_matched route) lastRouteIndex)
             = map_option rr_id (nth_int (r_matched cur) lastCurrentIndex))"

definition confirmTransition ::
  "env \<Rightarrow> Route \<Rightarrow> (Route \<Rightarrow> History \<Rightarrow> History) \<Rightarrow> (abort_value \<Rightarrow> History \<Rightarrow> History) option
   \<Rightarrow> History \<Rightarrow> result" where
  "confirmTransition e route onComplete onAbort st0 =
     (let cur = h_current st0;
          st = st0 \<lparr> h_pending := Some route \<rparr>;
          tr = \<lparr> t_route = route, t_current = cur, t_onComplete = onComplete,
                 t_onAbort = onAbort \<rparr>
      in if is_duplicate e route cur then
           (Finished, abort tr (createNavigationFailure duplicated tr) (ensureURL False st))
         else
           runQueue (first_queue e (r_matched cur) (r_matched route)) (iterator e tr)
             (\<lambda>st'. runQueue (second_queue e (r_matched cur) (r_matched route)) (iterator e tr)
                      (commit e tr) st')
             st)"

subsection \<open>Starting a transition\<close>

text \<open>
  The callbacks of a transition: the kind says whether \<^verbatim>\<open>transitionTo\<close> was called by \<^verbatim>\<open>push\<close>
  or by \<^verbatim>\<open>replace\<close> of the HTML5 history, which wrap the callback of the caller in one that
  first pushes or replaces the state (recorded with the full path of the route: the base
  of the history and the handling of the scroll position are left out); the callbacks of
  the caller are optional and named by labels.
\<close>

record callbacks =
  cb_kind :: nav_kind
  cb_onComplete :: "string option"
  cb_onAbort :: "string option"

definition updateRoute :: "Route \<Rightarrow> History \<Rightarrow> History" where
  "updateRoute route st =
     (let st1 = st \<lparr> h_current := route \<rparr>
      in case h_cb st1 of None \<Rightarrow> st1 | Some cb \<Rightarrow> emit [Listener cb (r_ref route)] st1)"

definition user_onComplete :: "callbacks \<Rightarrow> Route \<Rightarrow> event list" where
  "user_onComplete cbs route =
     (case cb_kind cbs of
        Plain \<Rightarrow> []
      | Push \<Rightarrow> [PushState (r_fullPath route)]
      | Replace \<Rightarrow> [ReplaceState (r_fullPath route)])
     @ (case cb_onComplete cbs of None \<Rightarrow> [] | Some f \<Rightarrow> [UserComplete f (r_ref route)])"

text \<open>The success callback that \<^verbatim>\<open>transitionTo\<close> gives to \<^verbatim>\<open>confirmTransition\<close>.\<close>

definition transition_complete :: "env \<Rightarrow> callbacks \<Rightarrow> Route \<Rightarrow> Route \<Rightarrow> History \<Rightarrow> History" where
  "transition_complete e cbs prev route st =
     (let st1 = updateRoute route st;
          st2 = emit (user_onComplete cbs route) st1;
          st3 = ensureURL False st2;
          st4 = emit (concat (map (\<lambda>h. case h of None \<Rightarrow> []
                                        | Some f \<Rightarrow> [AfterHook f (r_ref route) (r_ref prev)])
                                (afterHooks e))) st3
      in if \<not> h_ready st4
         then emit (map (\<lambda>cb. ReadyCb cb (r_ref route)) (h_readyCbs st4)) (st4 \<lparr> h_ready := True \<rparr>)
         else st4)"

text \<open>
  The failure callback. \<^verbatim>\<open>prev !== START\<close> compares addresses; the sentinel route has the
  address \<open>0\<close>.
\<close>

definition truthy_value :: "abort_value \<Rightarrow> bool" where
  "truthy_value err = (case err of Thrown (Falsy v) \<Rightarrow> False | _ \<Rightarrow> True)"

definition transition_abort :: "callbacks \<Rightarrow> Route \<Rightarrow> abort_value \<Rightarrow> History \<Rightarrow> History" where
  "transition_abort cbs prev err st =
     (let st1 = (case cb_onAbort cbs of None \<Rightarrow> st | Some f \<Rightarrow> emit [UserAbort f err] st)
      in if truthy_value err \<and> \<not> h_ready st1
            \<and> (\<not> isNavigationFailure err (Some redirected) \<or> r_ref prev \<noteq> 0)
         then emit (map (\<lambda>cb. ReadyErrorCb cb err) (h_readyErrorCbs st1))
                (st1 \<lparr> h_ready := True \<rparr>)
         else st1)"

text \<open>
  \<^verbatim>\<open>transitionTo\<close>. The route that the matcher returns is a new object: it is given the
  next free address. An exception of the matcher is reported to every error observer
  and thrown again.
\<close>

definition transitionTo :: "env \<Rightarrow> RawLocation \<Rightarrow> callbacks \<Rightarrow> History \<Rightarrow> result" where
  "transitionTo e location cbs st =
     (case router_match e location (h_current st) of
        Inl x \<Rightarrow> (Raised x, emit (map (\<lambda>cb. ErrorCb cb (Thrown x)) (h_errorCbs st)) st)
      | Inr matched_route \<Rightarrow>
          let route = matched_route \<lparr> r_ref := h_fresh st \<rparr>;
              prev = h_current st
          in confirmTransition e route (transition_complete e cbs prev)
               (Some (transition_abort cbs prev)) (st \<lparr> h_fresh := Suc (h_fresh st) \<rparr>))"

text \<open>
  Carrying out the calls \<^verbatim>\<open>this.push(to)\<close> and \<^verbatim>\<open>this.replace(to)\<close> that end the callback of a
  guard (they call \<^verbatim>\<open>transitionTo\<close> without callbacks of the caller). When the matcher throws
  in that call, the exception is caught by the \<^verbatim>\<open>try\<close> block of the iterator in which the
  guard was running, and otherwise reaches whoever called the callback. Guards that
  redirect every transition make this go on for ever: the first argument bounds the
  number of redirections, and the result is \<open>None\<close> when the bound is reached.
\<close>

primrec navigate :: "nat \<Rightarrow> env \<Rightarrow> result \<Rightarrow> result option" where
  "navigate 0 e r =
     (case r of (Navigate k to handler, st) \<Rightarrow> None | _ \<Rightarrow> Some r)"
| "navigate (Suc n) e r =
     (case r of
        (Navigate k to handler, st) \<Rightarrow>
          (case transitionTo e to \<lparr> cb_kind = k, cb_onComplete = None, cb_onAbort = None \<rparr> st of
             (Raised x, st') \<Rightarrow>
               (case handler of
                  Some catch \<Rightarrow> Some (Finished, catch x st')
                | None \<Rightarrow> Some (Raised x, st'))
           | r' \<Rightarrow> navigate n e r')
      | _ \<Rightarrow> Some r)"

text \<open>
  A guard calls, some time after it has returned, the callback \<open>k\<close> that it holds.
\<close>

definition resume ::
  "nat \<Rightarrow> env \<Rightarrow> (next_arg \<Rightarrow> History \<Rightarrow> result) \<Rightarrow> next_arg \<Rightarrow> History \<Rightarrow> result option" where
  "resume n e k to st = navigate n e (k to st)"


section \<open>Exceptions of the matcher\<close>

text \<open>Every path of the path list has its record in the path map.\<close>

definition paths_recorded :: "tables \<Rightarrow> bool" where
  "paths_recorded t = (set (pathList t) \<subseteq> dom (pathMap t))"


text \<open>
  \<^verbatim>\<open>router.match(raw, current)\<close> as the transition engine calls it: the matcher of the router,
  called without \<^verbatim>\<open>redirectedFrom\<close>. A recursion that does not end within the bound overflows
  the call stack, which throws a \<^verbatim>\<open>RangeError\<close>.
\<close>

definition router_match_of :: "nat \<Rightarrow> deps \<Rightarrow> tables \<Rightarrow> RawLocation \<Rightarrow> Route \<Rightarrow> thrown + Route" where
  "router_match_of n d t raw cur =
     (case match n d t raw (Some cur) None of
        Some r \<Rightarrow> r
      | None \<Rightarrow> Inl (Error ''RangeError''))"





text \<open>
  The configuration \<^verbatim>\<open>[{path:'/b', component: X}]\<close>, its record and tables, and the route of
  a path that no record of these tables matches.
\<close>

definition example9_plain :: "RouteConfig list" where
  "example9_plain = [RouteConfig ''/b'' None (Some ''X'') None None [] [] None None None None]"

definition example9_b :: RouteRecord where
  "example9_b = RouteRecord 0 ''/b'' (static_Regexp ''/b'' no_options)
     [(''default'', Some ''X'')] None None None None None None"

definition example9_plain_tables :: tables where
  "example9_plain_tables =
     \<lparr> pathList = [''/b''], pathMap = [''/b'' \<mapsto> example9_b], nameMap = Map.empty, alloc = 1 \<rparr>"





section \<open>The example of a duplicated navigation\<close>

text \<open>
  Modelled from the spec: \<^verbatim>\<open>isSameRoute\<close> (util/route.js) is not among the source files and
  is a parameter of the engine. The spec (section 3) calls two routes the same route when
  their path, the length and identity of their matched chains, their query and their
  params are equal; this equality is used where the model is run.
\<close>

definition same_route :: "Route \<Rightarrow> Route \<Rightarrow> bool" where
  "same_route a b =
     (r_path a = r_path b \<and> map rr_id (r_matched a) = map rr_id (r_matched b)
      \<and> r_query a = r_query b \<and> r_params a = r_params b)"

text \<open>
  A router with the configuration \<^verbatim>\<open>[{path:'/b', component: X}]\<close> and a global before guard,
  whose current route is the route of \<^verbatim>\<open>/b\<close> (at the address \<open>1\<close>), and a call of \<^verbatim>\<open>push\<close>
  with an abort callback.
\<close>

definition example4_route :: Route where
  "example4_route =
     createRoute static_deps (Some example9_b)
       (path_location ''/b'' \<lparr> l_params := Some Map.empty \<rparr>) None"

definition example4_env :: env where
  "example4_env =
     \<lparr> router_match = router_match_of 2 static_deps
                        (createRouteMap static_deps example9_plain emptyTables),
       isSameRoute = same_route,
       respond = (\<lambda>g to from. Calls NUndefined),
       resolveAsync = (\<lambda>ms to from. Calls NUndefined),
       component_option = (\<lambda>c k. NoHook),
       has_instance = (\<lambda>m k. False),
       beforeHooks = [Some ''before''], resolveHooks = [], afterHooks = [], router_app = False \<rparr>"

definition example4_history :: History where
  "example4_history =
     \<lparr> h_current = example4_route \<lparr> r_ref := 1 \<rparr>, h_pending = None, h_ready = True,
       h_cb = None, h_readyCbs = [], h_readyErrorCbs = [], h_errorCbs = [], h_fresh = 2,
       h_trace = [] \<rparr>"

definition example4_callbacks :: callbacks where
  "example4_callbacks = \<lparr> cb_kind = Push, cb_onComplete = None, cb_onAbort = Some ''onAbort'' \<rparr>"

section \<open>Outcomes of a guard\<close>





section \<open>The example of two global guards\<close>







section \<open>Properties of the diff\<close>

lemma nth_opt_eq: "nth_opt xs i = (if i < length xs then Some (xs ! i) else None)"
  by (induction xs i rule: nth_opt.induct) auto

lemma nth_opt_drop: "nth_opt xs i = (case drop i xs of [] \<Rightarrow> None | x # _ \<Rightarrow> Some x)"
  by (induction xs i rule: nth_opt.induct) auto

lemma resolveQueue_loop_lcp:
  "resolveQueue_loop current nxt i =
     i + length (longest_common_prefix (drop i current) (drop i nxt))"
proof (induction current nxt i rule: resolveQueue_loop.induct)
  case (1 current nxt i)
  show ?case
  proof (cases "i < max (length current) (length nxt)")
    case False
    then show ?thesis by (subst resolveQueue_loop.simps) simp
  next
    case True
    show ?thesis
    proof (cases "nth_opt current i \<noteq> nth_opt nxt i")
      case d: True
      then have "longest_common_prefix (drop i current) (drop i nxt) = []"
        by (cases "drop i current"; cases "drop i nxt") (auto simp: nth_opt_drop)
      with True d show ?thesis by (subst resolveQueue_loop.simps) simp
    next
      case e: False
      with True obtain x cs ns where c: "drop i current = x # cs" and n: "drop i nxt = x # ns"
        by (cases "drop i current"; cases "drop i nxt") (auto simp: nth_opt_drop)
      have c': "drop (Suc i) current = cs" and n': "drop (Suc i) nxt = ns"
        using c n by (metis drop_Suc list.sel(3) tl_drop)+
      from 1 True e
      have "resolveQueue_loop current nxt (Suc i) = Suc i + length (longest_common_prefix cs ns)"
        by (simp add: c' n')
      with True e show ?thesis by (subst resolveQueue_loop.simps) (simp add: c n)
    qed
  qed
qed

lemma lcp_append1:
  "xs = longest_common_prefix xs ys @ drop (length (longest_common_prefix xs ys)) xs"
  by (induction xs ys rule: longest_common_prefix.induct) auto

lemma lcp_append2:
  "ys = longest_common_prefix xs ys @ drop (length (longest_common_prefix xs ys)) ys"
  by (induction xs ys rule: longest_common_prefix.induct) auto

lemma lcp_take2: "take (length (longest_common_prefix xs ys)) ys = longest_common_prefix xs ys"
  by (induction xs ys rule: longest_common_prefix.induct) auto

lemma lcp_nth_opt_eq:
  "j < length (longest_common_prefix xs ys) \<Longrightarrow> nth_opt xs j = nth_opt ys j"
  by (induction xs ys arbitrary: j rule: longest_common_prefix.induct)
     (auto split: if_splits simp: less_Suc_eq_0_disj)

lemma lcp_nth_opt_neq:
  "length (longest_common_prefix xs ys) < max (length xs) (length ys)
   \<Longrightarrow> nth_opt xs (length (longest_common_prefix xs ys))
       \<noteq> nth_opt ys (length (longest_common_prefix xs ys))"
  by (induction xs ys rule: longest_common_prefix.induct)
     (auto split: if_splits simp: nth_opt_eq)

text \<open>
  Claim C2. For every pair of matched chains, the index \<open>i\<close> that the loop of
  \<^verbatim>\<open>resolveQueue\<close> stops at is the length of the longest common prefix of the two chains:
  the chains agree at every index below \<open>i\<close> and, unless both are exhausted, differ at
  \<open>i\<close> (an exhausted chain reads \<^verbatim>\<open>undefined\<close> there). \<open>updated\<close> is the target's
  prefix \<open>[0..i)\<close>, which is the common prefix, \<open>activated\<close> is the target's suffix from
  \<open>i\<close> in root-to-leaf order, and \<open>deactivated\<close> is the current chain's suffix from \<open>i\<close>.
\<close>

theorem resolveQueue_diff:
  fixes current nxt :: "'a list"
  defines "p \<equiv> longest_common_prefix current nxt"
  defines "i \<equiv> resolveQueue_loop current nxt 0"
  shows "i = length p
       \<and> (\<forall>j<i. nth_opt current j = nth_opt nxt j)
       \<and> (i < max (length current) (length nxt) \<longrightarrow> nth_opt current i \<noteq> nth_opt nxt i)
       \<and> updated (resolveQueue current nxt) = take i nxt
       \<and> activated (resolveQueue current nxt) = drop i nxt
       \<and> deactivated (resolveQueue current nxt) = drop i current
       \<and> updated (resolveQueue current nxt) = p
       \<and> nxt = p @ activated (resolveQueue current nxt)
       \<and> current = p @ deactivated (resolveQueue current nxt)"
proof -
  have i: "i = length p" by (simp add: i_def p_def resolveQueue_loop_lcp)
  show ?thesis
    unfolding i
    using lcp_append1[where xs=current and ys=nxt] lcp_append2[where xs=current and ys=nxt]
    by (simp add: resolveQueue_def Let_def i[symmetric] i_def[symmetric])
       (simp add: i p_def lcp_take2 lcp_nth_opt_eq lcp_nth_opt_neq)
qed

theorem resolveQueue_diff_witness:
  "resolveQueue [1, 2, 3, 7, 8 :: nat] [1, 2, 3, 4, 5, 6]
     = \<lparr> updated = [1, 2, 3], activated = [4, 5, 6], deactivated = [7, 8] \<rparr>
   \<and> resolveQueue_loop [1, 2, 3, 7, 8 :: nat] [1, 2, 3, 4, 5, 6] 0 = 3
   \<and> (3::nat) < max (length [1, 2, 3, 7, 8 :: nat]) (length [1, 2, 3, 4, 5, 6 :: nat])
   \<and> nth_opt [1, 2, 3, 7, 8 :: nat] 3 \<noteq> nth_opt [1, 2, 3, 4, 5, 6] 3
   \<and> nth_opt [1, 2, 3, 7, 8 :: nat] 2 = nth_opt [1, 2, 3, 4, 5, 6] 2"
  using resolveQueue_diff [of "[1, 2, 3, 7, 8 :: nat]" "[1, 2, 3, 4, 5, 6]"]
  by (simp add: numeral_3_eq_3 numeral_2_eq_2)

section \<open>Properties of the route table\<close>

lemma nth_opt_append_length: "nth_opt (A @ B) (length A) = nth_opt B 0"
  by (induction A) auto

text \<open>
  The loop, run on a list \<open>A @ B @ C\<close> with \<open>i\<close> at the start of \<open>B\<close> and \<open>l\<close> at its end:
  \<open>A\<close> is the part already scanned, \<open>C\<close> holds the wildcards already moved.
\<close>

lemma createRouteMap_loop_gen:
  "createRouteMap_loop (A @ B @ C) (length A) (length A + length B)
     = A @ filter (\<lambda>p. p \<noteq> ''*'') B @ C @ filter (\<lambda>p. p = ''*'') B"
proof (induction B arbitrary: A C)
  case Nil
  show ?case by (subst createRouteMap_loop.simps) simp
next
  case (Cons x B)
  show ?case
  proof (cases "x = ''*''")
    case True
    have "createRouteMap_loop (A @ B @ (C @ [''*''])) (length A) (length A + length B)
            = A @ filter (\<lambda>p. p \<noteq> ''*'') B @ (C @ [''*'']) @ filter (\<lambda>p. p = ''*'') B"
      by (rule Cons.IH)
    with True show ?thesis
      by (subst createRouteMap_loop.simps) (simp add: nth_opt_append_length)
  next
    case False
    have "createRouteMap_loop ((A @ [x]) @ B @ C) (length (A @ [x])) (length (A @ [x]) + length B)
            = (A @ [x]) @ filter (\<lambda>p. p \<noteq> ''*'') B @ C @ filter (\<lambda>p. p = ''*'') B"
      by (rule Cons.IH)
    with False show ?thesis
      by (subst createRouteMap_loop.simps) (simp add: nth_opt_append_length)
  qed
qed

lemma createRouteMap_loop_eq:
  "createRouteMap_loop pl 0 (length pl)
     = filter (\<lambda>p. p \<noteq> ''*'') pl @ filter (\<lambda>p. p = ''*'') pl"
  using createRouteMap_loop_gen [of "[]" pl "[]"] by simp

text \<open>
  \<^verbatim>\<open>addRouteRecord\<close> unfolded for a configuration without children and aliases, and for one
  without children, for running the model on concrete configurations.
\<close>

lemma addRouteRecord_leaf:
  "c_children route = [] \<Longrightarrow> c_alias route = [] \<Longrightarrow>
   addRouteRecord d t route parent matchAs =
     registerName
       (registerPath (t \<lparr> alloc := Suc (alloc t) \<rparr>)
          (makeRecord d (alloc t) route parent matchAs))
       (c_name route) (makeRecord d (alloc t) route parent matchAs)"
  by (subst addRouteRecord.simps) (simp add: Let_def)

lemma addRouteRecord_no_children:
  "c_children route = [] \<Longrightarrow>
   addRouteRecord d t route parent matchAs =
     registerName
       (fold (\<lambda>alias t'.
                  if \<not> production d \<and> alias = c_path route then t'
                  else registerName
                         (registerPath (t' \<lparr> alloc := Suc (alloc t') \<rparr>)
                            (makeRecord d (alloc t') (aliasRoute alias []) parent
                               (Some (if rr_path (makeRecord d (alloc t) route parent matchAs) \<noteq> []
                                      then rr_path (makeRecord d (alloc t) route parent matchAs)
                                      else ''/''))))
                         None
                         (makeRecord d (alloc t') (aliasRoute alias []) parent
                            (Some (if rr_path (makeRecord d (alloc t) route parent matchAs) \<noteq> []
                                   then rr_path (makeRecord d (alloc t) route parent matchAs)
                                   else ''/''))))
          (c_alias route)
          (registerPath (t \<lparr> alloc := Suc (alloc t) \<rparr>)
             (makeRecord d (alloc t) route parent matchAs)))
       (c_name route) (makeRecord d (alloc t) route parent matchAs)"
proof -
  assume ch: "c_children route = []"
  have leaf: "addRouteRecord d t' (aliasRoute a []) parent m
        = registerName (registerPath (t' \<lparr> alloc := Suc (alloc t') \<rparr>)
            (makeRecord d (alloc t') (aliasRoute a []) parent m)) None
            (makeRecord d (alloc t') (aliasRoute a []) parent m)" for t' a m
    using addRouteRecord_leaf [of "aliasRoute a []" d t' parent m]
    by (simp add: aliasRoute_def)
  show ?thesis
    by (subst addRouteRecord.simps) (simp add: Let_def ch leaf cong: if_cong)
qed

lemmas table_simps =
  emptyTables_def Let_def normalizePath_def stripTrailingSlash_def
  truthy_def makeRecord_def registerPath_def registerName_def compileRouteRegex_def
  aliasRoute_def

lemma wildcard_example_fold:
  "pathList (fold (\<lambda>route t'. addRouteRecord static_deps t' route None None)
      [route_config ''*'', route_config ''/a'', route_config ''/b''] emptyTables)
     = [''*'', ''/a'', ''/b'']"
  by (simp add: addRouteRecord_leaf table_simps route_config_def static_deps_def)

text \<open>
  Claim C8. For every array of route configurations (and every earlier state of the
  tables, for \<^verbatim>\<open>addRoutes\<close>), the path list that \<^verbatim>\<open>createRouteMap\<close> returns is the list of the
  paths in the order in which \<^verbatim>\<open>addRouteRecord\<close> registered them, with the entries other
  than the wildcard \<^verbatim>\<open>*\<close> first, in their registration order, and the wildcard entries
  after them: every wildcard entry stands after every other entry, and the relative
  order within each of the two groups is kept.
\<close>

theorem createRouteMap_wildcards_last:
  "pathList (createRouteMap d routes old)
     = filter (\<lambda>p. p \<noteq> ''*'')
         (pathList (fold (\<lambda>route t'. addRouteRecord d t' route None None) routes old))
     @ filter (\<lambda>p. p = ''*'')
         (pathList (fold (\<lambda>route t'. addRouteRecord d t' route None None) routes old))"
  by (simp add: createRouteMap_def Let_def createRouteMap_loop_eq)

theorem createRouteMap_wildcards_last_witness:
  "pathList (createRouteMap static_deps
      [route_config ''*'', route_config ''/a'', route_config ''/b''] emptyTables)
     = [''/a'', ''/b'', ''*'']"
  using createRouteMap_wildcards_last
    [of static_deps "[route_config ''*'', route_config ''/a'', route_config ''/b'']" emptyTables]
  unfolding wildcard_example_fold by simp

section \<open>Properties of the location normaliser\<close>

lemma normalizeLocation_flagged:
  "\<not> l_normalized (raw_object raw) \<Longrightarrow> \<not> truthy (l_name (raw_object raw))
   \<Longrightarrow> l_normalized (normalizeLocation d raw current appnd)"
  by (auto simp: normalizeLocation_def Let_def emptyLocation_def)

lemma normalizeLocation_named:
  "\<not> l_normalized (raw_object raw) \<Longrightarrow> truthy (l_name (raw_object raw))
   \<Longrightarrow> normalizeLocation d raw current appnd = raw_object raw"
  by (auto simp: normalizeLocation_def Let_def)

lemma normalizeLocation_normalized:
  "l_normalized (raw_object raw) \<Longrightarrow> normalizeLocation d raw current appnd = raw_object raw"
  by (auto simp: normalizeLocation_def Let_def)

lemma normalizeLocation_fix:
  "l_normalized l \<or> truthy (l_name l) \<Longrightarrow> normalizeLocation d (RawLoc l) current appnd = l"
  by (auto simp: normalizeLocation_def raw_object_def Let_def)

lemma normalizeLocation_path_example:
  "normalizeLocation static_deps (RawString ''/a?x=1#h'') None False
     = emptyLocation \<lparr> l_normalized := True, l_path := Some ''/a'', l_query := Some [],
         l_hash := Some ''#h'' \<rparr>"
  by (simp add: normalizeLocation_def raw_object_def emptyLocation_def truthy_def Let_def
      parsePath_def resolvePath_def resolveQuery_def static_deps_def)

text \<open>
  Claim C10. \<^verbatim>\<open>normalizeLocation\<close> is idempotent up to structural equality: for every raw
  location, current route and append flag (and every router, whose \<^verbatim>\<open>parseQuery\<close> option is
  in \<open>d\<close>), normalising the result again with the same other arguments gives an equal
  location. When the raw location is neither flagged \<^verbatim>\<open>_normalized\<close> nor named (the
  relative-params branch and the path branch), the result is flagged \<^verbatim>\<open>_normalized\<close>, so the
  second call returns it by the first branch; when it is named and not flagged, the
  result is the copy of the raw location, still named and not flagged, and the second
  call copies it again.
\<close>

theorem normalizeLocation_idempotent:
  "normalizeLocation d (RawLoc (normalizeLocation d raw current appnd)) current appnd
     = normalizeLocation d raw current appnd
   \<and> (\<not> l_normalized (raw_object raw) \<and> \<not> truthy (l_name (raw_object raw))
        \<longrightarrow> l_normalized (normalizeLocation d raw current appnd))
   \<and> (\<not> l_normalized (raw_object raw) \<and> truthy (l_name (raw_object raw))
        \<longrightarrow> normalizeLocation d raw current appnd = raw_object raw
            \<and> \<not> l_normalized (normalizeLocation d raw current appnd)
            \<and> truthy (l_name (normalizeLocation d raw current appnd)))"
proof -
  have "l_normalized (normalizeLocation d raw current appnd)
        \<or> truthy (l_name (normalizeLocation d raw current appnd))"
  proof (cases "l_normalized (raw_object raw)")
    case True
    then show ?thesis by (simp add: normalizeLocation_normalized)
  next
    case False
    then show ?thesis
      by (cases "truthy (l_name (raw_object raw))")
         (simp_all add: normalizeLocation_named normalizeLocation_flagged)
  qed
  then have "normalizeLocation d (RawLoc (normalizeLocation d raw current appnd)) current appnd
     = normalizeLocation d raw current appnd"
    by (rule normalizeLocation_fix)
  then show ?thesis
    by (simp add: normalizeLocation_named normalizeLocation_flagged)
qed

theorem normalizeLocation_idempotent_witness:
  "\<not> l_normalized (raw_object (RawString ''/a?x=1#h''))
   \<and> \<not> truthy (l_name (raw_object (RawString ''/a?x=1#h'')))
   \<and> normalizeLocation static_deps (RawString ''/a?x=1#h'') None False
       = emptyLocation \<lparr> l_normalized := True, l_path := Some ''/a'', l_query := Some [],
           l_hash := Some ''#h'' \<rparr>
   \<and> normalizeLocation static_deps
         (RawLoc (normalizeLocation static_deps (RawString ''/a?x=1#h'') None False)) None False
       = normalizeLocation static_deps (RawString ''/a?x=1#h'') None False
   \<and> \<not> l_normalized (raw_object (RawLoc named_location))
   \<and> truthy (l_name (raw_object (RawLoc named_location)))
   \<and> normalizeLocation static_deps (RawLoc named_location) None False = named_location
   \<and> normalizeLocation static_deps
         (RawLoc (normalizeLocation static_deps (RawLoc named_location) None False)) None False
       = named_location"
  using normalizeLocation_idempotent [of static_deps "RawString ''/a?x=1#h''" None False]
        normalizeLocation_idempotent [of static_deps "RawLoc named_location" None False]
  by (simp add: raw_object_def emptyLocation_def truthy_def named_location_def
      normalizeLocation_path_example)

section \<open>Properties of the matcher\<close>


lemma match_body_mono:
  assumes "\<And>r l rf res. f r l rf = Some res \<Longrightarrow> g r l rf = Some res"
    and "match_body f d t raw cur rf = Some res"
  shows "match_body g d t raw cur rf = Some res"
  using assms(2) unfolding match_body_def Let_def
  by (auto intro: assms(1) split: option.splits sum.splits if_splits)

lemma redirect_body_mono:
  assumes "\<And>raw cur rf res. m1 raw cur rf = Some res \<Longrightarrow> m2 raw cur rf = Some res"
    and "\<And>r l rf res. f r l rf = Some res \<Longrightarrow> g r l rf = Some res"
    and "redirect_body m1 f d t r l = Some res"
  shows "redirect_body m2 g d t r l = Some res"
  using assms(3) unfolding redirect_body_def Let_def
  by (auto intro: assms(1,2) split: option.splits sum.splits if_splits)

lemma createRoute_body_mono:
  assumes "\<And>r l res. r1 r l = Some res \<Longrightarrow> r2 r l = Some res"
    and "\<And>r l ma res. a1 r l ma = Some res \<Longrightarrow> a2 r l ma = Some res"
    and "createRoute_body r1 a1 d r l rf = Some res"
  shows "createRoute_body r2 a2 d r l rf = Some res"
  using assms(3)
  by (auto simp: createRoute_body_def Let_def intro: assms(1,2) split: option.splits if_splits)

lemma alias_body_mono:
  assumes m: "\<And>raw cur rf res. m1 raw cur rf = Some res \<Longrightarrow> m2 raw cur rf = Some res"
    and f: "\<And>r l rf res. f r l rf = Some res \<Longrightarrow> g r l rf = Some res"
    and a: "alias_body m1 f d r l ma = Some res"
  shows "alias_body m2 g d r l ma = Some res"
proof -
  let ?raw = "RawLoc (emptyLocation \<lparr> l_normalized := True,
                 l_path := Some (fst (fillParams d ma (l_params l))) \<rparr>)"
  show ?thesis
  proof (cases "m1 ?raw None None")
    case None
    with a show ?thesis by (simp add: alias_body_def Let_def)
  next
    case (Some x)
    then have m2: "m2 ?raw None None = Some x" by (rule m)
    show ?thesis
    proof (cases x)
      case (Inl e)
      with a Some m2 show ?thesis by (auto simp: alias_body_def Let_def)
    next
      case (Inr am)
      with a Some have "f (if r_matched am = [] then None else Some (last (r_matched am)))
           (l \<lparr> l_params := Some (r_params am) \<rparr>) None = Some res"
        by (simp add: alias_body_def Let_def)
      then have "g (if r_matched am = [] then None else Some (last (r_matched am)))
           (l \<lparr> l_params := Some (r_params am) \<rparr>) None = Some res" by (rule f)
      with Inr m2 show ?thesis by (simp add: alias_body_def Let_def)
    qed
  qed
qed

lemma matcher_run_Suc_mono:
  "matcher_run n d t c = Some r \<Longrightarrow> matcher_run (Suc n) d t c = Some r"
proof (induction n arbitrary: c r)
  case 0
  then show ?case by (simp add: matcher_run.simps)
next
  case (Suc n)
  note IH = Suc.IH
  show ?case
  proof (cases c)
    case (MatchCall raw cur rf)
    with Suc.prems have "match_body (\<lambda>r l rf. matcher_run n d t (CreateRouteCall r l rf)) d t raw cur rf = Some r"
      by (simp add: matcher_run.simps)
    then have "match_body (\<lambda>r l rf. matcher_run (Suc n) d t (CreateRouteCall r l rf)) d t raw cur rf = Some r"
      by (rule match_body_mono [rotated]) (erule IH)
    with MatchCall show ?thesis by (simp add: matcher_run.simps(2)[of "Suc n"])
  next
    case (RedirectCall rc l)
    with Suc.prems have "redirect_body (\<lambda>raw cur rf. matcher_run n d t (MatchCall raw cur rf))
            (\<lambda>r l rf. matcher_run n d t (CreateRouteCall r l rf)) d t rc l = Some r"
      by (simp add: matcher_run.simps)
    then have "redirect_body (\<lambda>raw cur rf. matcher_run (Suc n) d t (MatchCall raw cur rf))
            (\<lambda>r l rf. matcher_run (Suc n) d t (CreateRouteCall r l rf)) d t rc l = Some r"
      by (rule redirect_body_mono [rotated 2]) (erule IH)+
    with RedirectCall show ?thesis by (simp add: matcher_run.simps(2)[of "Suc n"])
  next
    case (AliasCall rc l m)
    with Suc.prems have "alias_body (\<lambda>raw cur rf. matcher_run n d t (MatchCall raw cur rf))
            (\<lambda>r l rf. matcher_run n d t (CreateRouteCall r l rf)) d rc l m = Some r"
      by (simp add: matcher_run.simps)
    then have "alias_body (\<lambda>raw cur rf. matcher_run (Suc n) d t (MatchCall raw cur rf))
            (\<lambda>r l rf. matcher_run (Suc n) d t (CreateRouteCall r l rf)) d rc l m = Some r"
      by (rule alias_body_mono [rotated 2]) (erule IH)+
    with AliasCall show ?thesis by (simp add: matcher_run.simps(2)[of "Suc n"])
  next
    case (CreateRouteCall rc l rf)
    with Suc.prems have "createRoute_body (\<lambda>r l. matcher_run n d t (RedirectCall r l))
            (\<lambda>r l m. matcher_run n d t (AliasCall r l m)) d rc l rf = Some r"
      by (simp add: matcher_run.simps)
    then have "createRoute_body (\<lambda>r l. matcher_run (Suc n) d t (RedirectCall r l))
            (\<lambda>r l m. matcher_run (Suc n) d t (AliasCall r l m)) d rc l rf = Some r"
      by (rule createRoute_body_mono [rotated 2]) (erule IH)+
    with CreateRouteCall show ?thesis by (simp add: matcher_run.simps(2)[of "Suc n"])
  qed
qed

lemma matcher_run_mono:
  "matcher_run n d t c = Some r \<Longrightarrow> n \<le> m \<Longrightarrow> matcher_run m d t c = Some r"
proof (induction m)
  case 0
  then show ?case by simp
next
  case (Suc m)
  show ?case
  proof (cases "n = Suc m")
    case True
    with Suc.prems show ?thesis by simp
  next
    case False
    with Suc.prems have "n \<le> m" by simp
    with Suc have "matcher_run m d t c = Some r" by blast
    then show ?thesis by (rule matcher_run_Suc_mono)
  qed
qed

lemma match_mono:
  "match n d t raw cur rf = Some r \<Longrightarrow> n \<le> m \<Longrightarrow> match m d t raw cur rf = Some r"
  unfolding match_def by (rule matcher_run_mono)

lemma match_Suc: "match (Suc n) d t raw cur rf = match_body (createRoute' n d t) d t raw cur rf"
  by (simp add: match_def createRoute'_def[abs_def] matcher_run.simps)
lemma redirect_Suc: "redirect (Suc n) d t r l = redirect_body (match n d t) (createRoute' n d t) d t r l"
  by (simp add: match_def[abs_def] createRoute'_def[abs_def] redirect_def matcher_run.simps)
lemma alias_Suc: "alias' (Suc n) d t r l m = alias_body (match n d t) (createRoute' n d t) d r l m"
  by (simp add: match_def[abs_def] createRoute'_def[abs_def] alias'_def matcher_run.simps)
lemma createRoute'_Suc: "createRoute' (Suc n) d t r l rf = createRoute_body (redirect n d t) (alias' n d t) d r l rf"
  by (simp add: redirect_def[abs_def] createRoute'_def alias'_def[abs_def] matcher_run.simps)

lemma last_formatMatch: "formatMatch r \<noteq> [] \<and> last (formatMatch r) = r"
  by (cases r) (simp split: option.splits)

lemma getFullPath_params [simp]: "getFullPath d (l \<lparr> l_params := p \<rparr>) = getFullPath d l"
  by (simp add: getFullPath_def)

lemma getFullPath_redirect_path_from [simp]:
  "getFullPath d (redirect_path_from d re record l) = getFullPath d l"
  by (simp add: redirect_path_from_def)

lemma normalized_path_target [simp]:
  "l_normalized (redirect_path_target d re record l)"
  by (simp add: redirect_path_target_def emptyLocation_def)

lemma match_found:
  assumes "l_normalized loc" "\<not> truthy (l_name loc)" "truthy (l_path loc)"
    "match_loop d t (pathList t) (the (l_path loc)) = Inr (Some (record, params))"
  shows "match (Suc n) d t (RawLoc loc) cur rf
           = createRoute' n d t (Some record) (loc \<lparr> l_params := Some params \<rparr>) rf"
  using assms by (simp add: match_Suc match_body_def normalizeLocation_def raw_object_def Let_def)

lemma createRoute'_plain:
  "\<not> has_redirect record \<Longrightarrow> \<not> truthy (rr_matchAs record) \<Longrightarrow>
   createRoute' (Suc n) d t (Some record) loc rf = Some (Inr (createRoute d (Some record) loc rf))"
  by (simp add: createRoute'_Suc createRoute_body_def)

lemma normalizeLocation_idem:
  "normalizeLocation d (RawLoc (normalizeLocation d raw current appnd)) current appnd
     = normalizeLocation d raw current appnd"
  by (auto simp: normalizeLocation_def raw_object_def Let_def emptyLocation_def)

lemma match_raw_normalized:
  "match n d t raw cur rf = match n d t (RawLoc (normalizeLocation d raw cur False)) cur rf"
  by (cases n) (simp_all add: match_def matcher_run.simps match_body_def normalizeLocation_idem)

lemma example1_createRouteMap:
  "createRouteMap static_deps example1 emptyTables = example1_tables"
  by (simp add: createRouteMap_def createRouteMap_loop_eq example1_def addRouteRecord_leaf
      table_simps static_deps_def example1_a_def example1_b_def example1_tables_def no_options_def)

lemma example1_normalize:
  "normalizeLocation static_deps (RawString ''/a'') None False = path_location ''/a''"
  by (simp add: normalizeLocation_def raw_object_def emptyLocation_def truthy_def Let_def
      parsePath_def resolvePath_def resolveQuery_def static_deps_def path_location_def)

lemma example1_loop_a:
  "match_loop static_deps example1_tables (pathList example1_tables) ''/a''
     = Inr (Some (example1_a, Map.empty))"
  by (simp add: example1_tables_def example1_a_def example1_b_def static_Regexp_def matchRoute_def)

lemma example1_loop_b:
  "match_loop static_deps example1_tables (pathList example1_tables) ''/b''
     = Inr (Some (example1_b, Map.empty))"
  by (simp add: example1_tables_def example1_a_def example1_b_def static_Regexp_def matchRoute_def)

section \<open>Alias resolution\<close>

lemma plain_createRoute_None: "plain_route (createRoute d None l rf)"
  by (simp add: plain_route_def createRoute_def)

lemma plain_createRoute_Some:
  "\<not> has_redirect r \<Longrightarrow> \<not> truthy (rr_matchAs r) \<Longrightarrow> plain_route (createRoute d (Some r) l rf)"
  by (simp add: plain_route_def createRoute_def last_formatMatch)

lemma match_body_plain:
  assumes "\<And>r l rf route. f r l rf = Some (Inr route) \<Longrightarrow> plain_route route"
    and "match_body f d t raw cur rf = Some (Inr route)"
  shows "plain_route route"
  using assms(2) unfolding match_body_def Let_def
  by (auto dest: assms(1) split: option.splits sum.splits if_splits)

lemma redirect_body_plain:
  assumes "\<And>raw cur rf route. m raw cur rf = Some (Inr route) \<Longrightarrow> plain_route route"
    and "\<And>r l rf route. f r l rf = Some (Inr route) \<Longrightarrow> plain_route route"
    and "redirect_body m f d t r l = Some (Inr route)"
  shows "plain_route route"
  using assms(3) unfolding redirect_body_def Let_def
  by (auto dest: assms(1,2) split: option.splits sum.splits if_splits)

lemma alias_body_plain:
  assumes "\<And>r l rf route. f r l rf = Some (Inr route) \<Longrightarrow> plain_route route"
    and "alias_body m f d r l ma = Some (Inr route)"
  shows "plain_route route"
  using assms(2) unfolding alias_body_def Let_def
  by (auto dest: assms(1) split: option.splits sum.splits if_splits)

lemma createRoute_body_plain:
  assumes "\<And>r l route. r1 r l = Some (Inr route) \<Longrightarrow> plain_route route"
    and "\<And>r l ma route. a1 r l ma = Some (Inr route) \<Longrightarrow> plain_route route"
    and "createRoute_body r1 a1 d r l rf = Some (Inr route)"
  shows "plain_route route"
  using assms(3) unfolding createRoute_body_def
  by (auto dest: assms(1,2) simp: plain_createRoute_None plain_createRoute_Some
      split: option.splits if_splits)

lemma matcher_run_plain:
  "matcher_run n d t c = Some (Inr route) \<Longrightarrow> plain_route route"
proof (induction n arbitrary: c route)
  case 0
  then show ?case by (simp add: matcher_run.simps)
next
  case (Suc n)
  note IH = Suc.IH
  show ?case
  proof (cases c)
    case (MatchCall raw cur rf)
    with Suc.prems show ?thesis
      by (auto simp: matcher_run.simps elim!: match_body_plain [rotated] dest: IH)
  next
    case (RedirectCall rc l)
    with Suc.prems show ?thesis
      by (auto simp: matcher_run.simps elim!: redirect_body_plain [rotated 2] dest: IH)
  next
    case (AliasCall rc l m)
    with Suc.prems show ?thesis
      by (auto simp: matcher_run.simps elim!: alias_body_plain [rotated] dest: IH)
  next
    case (CreateRouteCall rc l rf)
    with Suc.prems show ?thesis
      by (auto simp: matcher_run.simps elim!: createRoute_body_plain [rotated 2] dest: IH)
  qed
qed

lemma match_plain: "match n d t raw cur rf = Some (Inr route) \<Longrightarrow> plain_route route"
  unfolding match_def by (rule matcher_run_plain)

lemma example5_createRouteMap:
  "createRouteMap static_deps example5 emptyTables = example5_tables"
  by (simp add: createRouteMap_def createRouteMap_loop_eq example5_def addRouteRecord_no_children
      table_simps static_deps_def example5_a_def example5_b_def example5_tables_def no_options_def)

lemma alias_resolution:
  assumes loc: "\<not> truthy (l_name (normalizeLocation d raw cur False))"
               "truthy (l_path (normalizeLocation d raw cur False))"
    and found: "match_loop d t (pathList t) (the (l_path (normalizeLocation d raw cur False)))
                  = Inr (Some (rcd, params))"
    and rcd: "\<not> has_redirect rcd" "truthy (rr_matchAs rcd)"
    and inner: "match n d t
                  (RawLoc (emptyLocation \<lparr> l_normalized := True,
                     l_path := Some (fst (fillParams d (the (rr_matchAs rcd)) (Some params))) \<rparr>))
                  None None = Some (Inr aliasedMatch)"
  shows "match (n + 3) d t raw cur rf
           = Some (Inr (createRoute d
                (if r_matched aliasedMatch = [] then None else Some (last (r_matched aliasedMatch)))
                (normalizeLocation d raw cur False \<lparr> l_params := Some (r_params aliasedMatch) \<rparr>)
                None))"
proof -
  let ?loc = "normalizeLocation d raw cur False"
  let ?ar = "if r_matched aliasedMatch = [] then None else Some (last (r_matched aliasedMatch))"
  let ?loc' = "?loc \<lparr> l_params := Some (r_params aliasedMatch) \<rparr>"
  from inner obtain n' where n: "n = Suc n'"
    by (cases n) (simp_all add: match_def matcher_run.simps)
  have plain: "plain_route aliasedMatch" using inner by (rule match_plain)
  have last_step: "createRoute' n d t ?ar ?loc' None = Some (Inr (createRoute d ?ar ?loc' None))"
    using plain unfolding n
    by (auto simp: createRoute'_Suc createRoute_body_def plain_route_def)
  have "match (n + 3) d t raw cur rf = createRoute' (Suc (Suc n)) d t (Some rcd) (?loc \<lparr> l_params := Some params \<rparr>) rf"
    using loc found by (simp add: eval_nat_numeral match_Suc match_body_def Let_def)
  also have "\<dots> = alias' (Suc n) d t rcd (?loc \<lparr> l_params := Some params \<rparr>) (the (rr_matchAs rcd))"
    using rcd by (simp add: createRoute'_Suc createRoute_body_def)
  also have "\<dots> = createRoute' n d t ?ar ?loc' None"
    using inner by (simp add: alias_Suc alias_body_def Let_def)
  finally show ?thesis using last_step by simp
qed

lemma example5_normalize:
  "normalizeLocation static_deps (RawString ''/b'') None False = path_location ''/b''"
  by (simp add: normalizeLocation_def raw_object_def emptyLocation_def truthy_def Let_def
      parsePath_def resolvePath_def resolveQuery_def static_deps_def path_location_def)

lemma example5_loop_b:
  "match_loop static_deps example5_tables (pathList example5_tables) ''/b''
     = Inr (Some (example5_b, Map.empty))"
  by (simp add: example5_tables_def example5_a_def example5_b_def static_Regexp_def matchRoute_def)

lemma example5_loop_a:
  "match_loop static_deps example5_tables (pathList example5_tables) ''/a''
     = Inr (Some (example5_a, Map.empty))"
  by (simp add: example5_tables_def example5_a_def example5_b_def static_Regexp_def matchRoute_def)

lemma example5_aliasedPath:
  "fst (fillParams static_deps (the (rr_matchAs example5_b)) (Some Map.empty)) = ''/a''"
  by (simp add: fillParams_def Let_def example5_b_def static_deps_def static_compile_def)

lemma example5_inner:
  "match 2 static_deps example5_tables
     (RawLoc (emptyLocation \<lparr> l_normalized := True, l_path := Some ''/a'' \<rparr>)) None None
     = Some (Inr example5_canonical)"
proof -
  have "match (Suc (Suc 0)) static_deps example5_tables
     (RawLoc (emptyLocation \<lparr> l_normalized := True, l_path := Some ''/a'' \<rparr>)) None None
     = createRoute' (Suc 0) static_deps example5_tables (Some example5_a)
         (emptyLocation \<lparr> l_normalized := True, l_path := Some ''/a'', l_params := Some Map.empty \<rparr>) None"
    by (rule match_found [THEN trans])
       (simp_all add: emptyLocation_def truthy_def example5_loop_a)
  also have "\<dots> = Some (Inr example5_canonical)"
    unfolding example5_canonical_def
    by (rule createRoute'_plain) (simp_all add: example5_a_def has_redirect_def truthy_def)
  finally show ?thesis by (simp add: numeral_2_eq_2)
qed

lemma example5_route_eq:
  "createRoute static_deps
     (if r_matched example5_canonical = [] then None else Some (last (r_matched example5_canonical)))
     (path_location ''/b'' \<lparr> l_params := Some (r_params example5_canonical) \<rparr>) None
   = example5_route"
  by (simp add: example5_canonical_def example5_route_def createRoute_def example5_a_def)

lemma example5_match:
  "match 5 static_deps example5_tables (RawString ''/b'') None None = Some (Inr example5_route)"
proof -
  let ?loc = "normalizeLocation static_deps (RawString ''/b'') None False"
  have h1: "\<not> truthy (l_name ?loc)" and h2: "truthy (l_path ?loc)"
    by (simp_all add: example5_normalize path_location_def emptyLocation_def truthy_def)
  have h3: "match_loop static_deps example5_tables (pathList example5_tables) (the (l_path ?loc))
              = Inr (Some (example5_b, Map.empty))"
    by (simp add: example5_normalize path_location_def emptyLocation_def example5_loop_b)
  have h4: "\<not> has_redirect example5_b" and h5: "truthy (rr_matchAs example5_b)"
    by (simp_all add: example5_b_def has_redirect_def truthy_def)
  have h6: "match 2 static_deps example5_tables
              (RawLoc (emptyLocation \<lparr> l_normalized := True,
                 l_path := Some (fst (fillParams static_deps (the (rr_matchAs example5_b))
                                        (Some Map.empty))) \<rparr>))
              None None = Some (Inr example5_canonical)"
    unfolding example5_aliasedPath by (rule example5_inner)
  have "match (2 + 3) static_deps example5_tables (RawString ''/b'') None None
          = Some (Inr example5_route)"
    unfolding example5_route_eq [symmetric] example5_normalize [symmetric]
    by (rule alias_resolution [OF h1 h2 h3 h4 h5 h6])
  then show ?thesis by simp
qed

text \<open>
  Claim C7 fails as stated: with the configuration \<^verbatim>\<open>{path:'/a', component:Z, alias:'/b'}\<close>,
  resolving \<^verbatim>\<open>'/b'\<close> gives a route of path \<^verbatim>\<open>/b\<close> whose matched chain is the canonical record
  alone: the deepest record has the path \<^verbatim>\<open>/a\<close>, not \<^verbatim>\<open>/b\<close>, and the component \<^verbatim>\<open>Z\<close>.
\<close>

theorem alias_own_record_counterexample:
  "match 5 static_deps (createRouteMap static_deps example5 emptyTables)
     (RawString ''/b'') None None = Some (Inr example5_route)
   \<and> r_path example5_route = ''/b''
   \<and> r_matched example5_route = [example5_a]
   \<and> rr_path (last (r_matched example5_route)) = ''/a''
   \<and> rr_path (last (r_matched example5_route)) \<noteq> ''/b''
   \<and> rr_components (last (r_matched example5_route)) = [(''default'', Some ''Z'')]"
  by (simp add: example5_createRouteMap example5_match)
     (simp add: example5_route_def createRoute_def example5_a_def
        path_location_def emptyLocation_def truthy_def)

text \<open>
  Claim C7, amended. When the first record whose pattern matches the path of the
  (unnamed) location is an alias record (it has \<^verbatim>\<open>matchAs\<close> and no redirect), \<^verbatim>\<open>match\<close> fills the
  \<^verbatim>\<open>matchAs\<close> pattern with the params of the match and matches the result internally; when
  that internal match returns a route, the final route is built with the deepest record
  of that canonical route, not with the alias's own record: its matched chain is the
  chain of the canonical route, its params are the params of the canonical route, its
  path is the path of the alias location, and it has no \<^verbatim>\<open>redirectedFrom\<close>. The deepest
  record is never an alias record. The witness is the example: resolving \<^verbatim>\<open>'/b'\<close> gives
  the route of path \<^verbatim>\<open>/b\<close> whose deepest matched record is the record of path \<^verbatim>\<open>/a\<close>.
\<close>

theorem alias_resolves_to_canonical_record:
  fixes d t raw cur rf rcd params n aliasedMatch
  defines "loc \<equiv> normalizeLocation d raw cur False"
  defines "route \<equiv> createRoute d
                (if r_matched aliasedMatch = [] then None else Some (last (r_matched aliasedMatch)))
                (loc \<lparr> l_params := Some (r_params aliasedMatch) \<rparr>) None"
  assumes "\<not> truthy (l_name loc)" "truthy (l_path loc)"
    and "match_loop d t (pathList t) (the (l_path loc)) = Inr (Some (rcd, params))"
    and "\<not> has_redirect rcd" "truthy (rr_matchAs rcd)"
    and "match n d t
           (RawLoc (emptyLocation \<lparr> l_normalized := True,
              l_path := Some (fst (fillParams d (the (rr_matchAs rcd)) (Some params))) \<rparr>))
           None None = Some (Inr aliasedMatch)"
  shows "match (n + 3) d t raw cur rf = Some (Inr route)
       \<and> r_matched route = r_matched aliasedMatch
       \<and> r_params route = r_params aliasedMatch
       \<and> r_path route = the (l_path loc)
       \<and> r_redirectedFrom route = None
       \<and> (r_matched aliasedMatch \<noteq> [] \<longrightarrow>
            \<not> truthy (rr_matchAs (last (r_matched route))) \<and> last (r_matched route) \<noteq> rcd)"
proof -
  have m: "match (n + 3) d t raw cur rf = Some (Inr route)"
    unfolding route_def loc_def
    by (rule alias_resolution) (use assms(3-8) in \<open>simp_all add: loc_def\<close>)
  have plain: "plain_route aliasedMatch" using assms(8) by (rule match_plain)
  then have matched: "r_matched route = r_matched aliasedMatch"
    by (auto simp: route_def createRoute_def plain_route_def)
  have "\<not> truthy (rr_matchAs (last (r_matched route))) \<and> last (r_matched route) \<noteq> rcd"
    if "r_matched aliasedMatch \<noteq> []"
    using plain that assms(7) unfolding matched by (auto simp: plain_route_def)
  with m matched assms(4) show ?thesis
    by (simp add: route_def createRoute_def)
qed

theorem alias_resolves_to_canonical_record_witness:
  "\<not> truthy (l_name (normalizeLocation static_deps (RawString ''/b'') None False))
   \<and> truthy (l_path (normalizeLocation static_deps (RawString ''/b'') None False))
   \<and> match_loop static_deps example5_tables (pathList example5_tables)
        (the (l_path (normalizeLocation static_deps (RawString ''/b'') None False)))
       = Inr (Some (example5_b, Map.empty))
   \<and> \<not> has_redirect example5_b
   \<and> truthy (rr_matchAs example5_b)
   \<and> match 2 static_deps example5_tables
        (RawLoc (emptyLocation \<lparr> l_normalized := True, l_path := Some ''/a'' \<rparr>)) None None
       = Some (Inr example5_canonical)
   \<and> r_matched example5_canonical \<noteq> []
   \<and> match 5 static_deps example5_tables (RawString ''/b'') None None = Some (Inr example5_route)
   \<and> r_matched example5_route = r_matched example5_canonical
   \<and> r_path example5_route = ''/b''
   \<and> last (r_matched example5_route) = example5_a
   \<and> last (r_matched example5_route) \<noteq> example5_b"
proof -
  let ?loc = "normalizeLocation static_deps (RawString ''/b'') None False"
  have h1: "\<not> truthy (l_name ?loc)" and h2: "truthy (l_path ?loc)"
    by (simp_all add: example5_normalize path_location_def emptyLocation_def truthy_def)
  have h3: "match_loop static_deps example5_tables (pathList example5_tables) (the (l_path ?loc))
              = Inr (Some (example5_b, Map.empty))"
    by (simp add: example5_normalize path_location_def emptyLocation_def example5_loop_b)
  have h4: "\<not> has_redirect example5_b" and h5: "truthy (rr_matchAs example5_b)"
    by (simp_all add: example5_b_def has_redirect_def truthy_def)
  have h6: "match 2 static_deps example5_tables
              (RawLoc (emptyLocation \<lparr> l_normalized := True,
                 l_path := Some (fst (fillParams static_deps (the (rr_matchAs example5_b))
                                        (Some Map.empty))) \<rparr>))
              None None = Some (Inr example5_canonical)"
    unfolding example5_aliasedPath by (rule example5_inner)
  have ne: "r_matched example5_canonical \<noteq> []"
    by (simp add: example5_canonical_def createRoute_def example5_a_def)
  have la: "last (r_matched example5_route) = example5_a"
    by (simp add: example5_route_def createRoute_def example5_a_def)
  have req: "createRoute static_deps
      (if r_matched example5_canonical = [] then None
       else Some (last (r_matched example5_canonical)))
      (?loc \<lparr> l_params := Some (r_params example5_canonical) \<rparr>) None = example5_route"
    by (simp only: example5_normalize example5_route_eq)
  have p: "the (l_path ?loc) = ''/b''"
    by (simp add: example5_normalize path_location_def emptyLocation_def)
  have five: "2 + 3 = (5::nat)" by simp
  note alias_resolves_to_canonical_record [OF h1 h2 h3 h4 h5 h6, of None, unfolded req p five]
  with ne
  have "match 5 static_deps example5_tables (RawString ''/b'') None None = Some (Inr example5_route)
      \<and> r_matched example5_route = r_matched example5_canonical
      \<and> r_path example5_route = ''/b''
      \<and> last (r_matched example5_route) \<noteq> example5_b"
    by blast
  with h1 h2 h3 h4 h5 h6 [unfolded example5_aliasedPath] ne la show ?thesis
    by blast
qed

section \<open>Properties of chains of path redirects\<close>

lemma path_redirect_has_redirect:
  "path_redirect d rcd origin = Some re \<Longrightarrow> has_redirect rcd"
  by (auto simp: path_redirect_def has_redirect_def Let_def
      split: option.splits RedirectOption.splits RawLocation.splits if_splits)

lemma path_redirect_object:
  assumes "path_redirect d rcd origin = Some re"
  shows "\<exists>result. redirect_value d rcd origin = Inr result \<and> redirect_object result = Some re
           \<and> \<not> truthy (l_name re) \<and> truthy (l_path re)"
  using assms
  by (auto simp: path_redirect_def redirect_value_def redirect_object_def Let_def
      split: option.splits RedirectOption.splits RawLocation.splits if_splits sum.splits
             redirect_result.splits)

lemma chain_target_eq:
  "\<not> truthy (l_name re) \<Longrightarrow> redirect_path_target d re rcd origin = chain_target d re rcd origin"
  by (auto simp: redirect_path_target_def chain_target_def emptyLocation_def redirect_params_def
      resolveRecordPath_def split: option.splits)

lemma chain_origin_eq: "redirect_path_from d re rcd origin = chain_origin re origin"
  by (auto simp: redirect_path_from_def chain_origin_def fillParams_def Let_def
      split: option.splits)

lemma createRoute'_path_redirect:
  assumes "path_redirect d rcd (case rf of Some x \<Rightarrow> x | None \<Rightarrow> loc) = Some re"
  shows "createRoute' (Suc (Suc n)) d t (Some rcd) loc rf
           = match n d t
               (RawLoc (chain_target d re rcd (case rf of Some x \<Rightarrow> x | None \<Rightarrow> loc)))
               None
               (Some (chain_origin re (case rf of Some x \<Rightarrow> x | None \<Rightarrow> loc)))"
proof -
  let ?origin = "case rf of Some x \<Rightarrow> x | None \<Rightarrow> loc"
  from path_redirect_object [OF assms] obtain result where
    r: "redirect_value d rcd ?origin = Inr result" "redirect_object result = Some re"
       "\<not> truthy (l_name re)" "truthy (l_path re)" by blast
  have "createRoute' (Suc (Suc n)) d t (Some rcd) loc rf = redirect (Suc n) d t rcd ?origin"
    using path_redirect_has_redirect [OF assms]
    by (simp add: createRoute'_Suc createRoute_body_def)
  also have "\<dots> = match n d t (RawLoc (redirect_path_target d re rcd ?origin)) None
                     (Some (redirect_path_from d re rcd ?origin))"
    using r by (simp add: redirect_Suc redirect_body_def)
  finally show ?thesis using r(3) by (simp add: chain_target_eq chain_origin_eq)
qed

lemma getFullPath_chain_origin [simp]: "getFullPath d (chain_origin re origin) = getFullPath d origin"
  by (simp add: chain_origin_def getFullPath_def split: option.splits)

lemma path_redirect_chain_match:
  assumes "path_redirect_chain d t loc rf k rcd loc' rf'"
  shows "match (3 * k + Suc n) d t (RawLoc loc) cur rf = createRoute' n d t (Some rcd) loc' rf'"
  using assms
proof (induction arbitrary: cur rule: path_redirect_chain.induct)
  case (chain_end loc rc params rf)
  then show ?case by (simp add: match_found)
next
  case (chain_hop loc rc params origin rf re k rcd' loc' rf')
  have eq: "3 * Suc k + Suc n = Suc (Suc (Suc (3 * k + Suc n)))" by simp
  have "match (Suc (Suc (Suc (3 * k + Suc n)))) d t (RawLoc loc) cur rf
      = createRoute' (Suc (Suc (3 * k + Suc n))) d t (Some rc) (loc \<lparr> l_params := Some params \<rparr>) rf"
    by (rule match_found [OF chain_hop.hyps(1-4)])
  also have "\<dots> = match (3 * k + Suc n) d t (RawLoc (chain_target d re rc origin)) None
                      (Some (chain_origin re origin))"
    unfolding chain_hop.hyps(5)
    by (rule createRoute'_path_redirect) (rule chain_hop.hyps(6) [unfolded chain_hop.hyps(5)])
  also have "\<dots> = createRoute' n d t (Some rcd') loc' rf'"
    by (rule chain_hop.IH)
  finally show ?case unfolding eq .
qed

lemma path_redirect_chain_from:
  assumes "path_redirect_chain d t loc rf k rcd loc' rf'"
  shows "map_option (getFullPath d) rf'
           = (case rf of Some x \<Rightarrow> Some (getFullPath d x)
              | None \<Rightarrow> if k = 0 then None else Some (getFullPath d loc))"
  using assms
proof (induction rule: path_redirect_chain.induct)
  case (chain_end loc rc params rf)
  then show ?case by (simp split: option.splits)
next
  case (chain_hop loc rc params origin rf re k rcd' loc' rf')
  then show ?case by (simp split: option.splits)
qed

lemma path_redirect_chain_end:
  assumes "path_redirect_chain d t loc rf k rcd loc' rf'"
  shows "\<not> has_redirect rcd \<and> l_normalized loc' \<and> \<not> truthy (l_name loc') \<and> truthy (l_path loc')"
  using assms by (induction rule: path_redirect_chain.induct) simp_all

lemma createRoute'_alias:
  assumes rcd: "\<not> has_redirect rcd" "truthy (rr_matchAs rcd)"
    and inner: "match m d t
                  (RawLoc (emptyLocation \<lparr> l_normalized := True,
                     l_path := Some (fst (fillParams d (the (rr_matchAs rcd)) (l_params loc))) \<rparr>))
                  None None = Some (Inr aliasedMatch)"
    and le: "m \<le> n"
  shows "createRoute' (Suc (Suc n)) d t (Some rcd) loc rf
           = Some (Inr (createRoute d
                (if r_matched aliasedMatch = [] then None else Some (last (r_matched aliasedMatch)))
                (loc \<lparr> l_params := Some (r_params aliasedMatch) \<rparr>) None))"
proof -
  let ?ar = "if r_matched aliasedMatch = [] then None else Some (last (r_matched aliasedMatch))"
  let ?loc' = "loc \<lparr> l_params := Some (r_params aliasedMatch) \<rparr>"
  from inner obtain m' where "m = Suc m'"
    by (cases m) (simp_all add: match_def matcher_run.simps)
  with le obtain n' where n: "n = Suc n'" by (cases n) simp_all
  have inner': "match n d t
                  (RawLoc (emptyLocation \<lparr> l_normalized := True,
                     l_path := Some (fst (fillParams d (the (rr_matchAs rcd)) (l_params loc))) \<rparr>))
                  None None = Some (Inr aliasedMatch)"
    using inner le by (rule match_mono)
  have plain: "plain_route aliasedMatch" using inner by (rule match_plain)
  have last_step: "createRoute' n d t ?ar ?loc' None = Some (Inr (createRoute d ?ar ?loc' None))"
    using plain unfolding n
    by (auto simp: createRoute'_Suc createRoute_body_def plain_route_def)
  have "createRoute' (Suc (Suc n)) d t (Some rcd) loc rf
          = alias' (Suc n) d t rcd loc (the (rr_matchAs rcd))"
    using rcd by (simp add: createRoute'_Suc createRoute_body_def)
  also have "\<dots> = createRoute' n d t ?ar ?loc' None"
    using inner' by (simp add: alias_Suc alias_body_def Let_def)
  finally show ?thesis using last_step by simp
qed

lemma example6_createRouteMap:
  "createRouteMap static_deps example6 emptyTables = example6_tables"
  by (simp add: createRouteMap_def createRouteMap_loop_eq example6_def addRouteRecord_no_children
      table_simps static_deps_def example1_a_def example6_b_def example6_c_def
      example6_tables_def no_options_def numeral_2_eq_2 numeral_3_eq_3)

lemma example6_loop_a:
  "match_loop static_deps example6_tables (pathList example6_tables) ''/a''
     = Inr (Some (example1_a, Map.empty))"
  by (simp add: example6_tables_def example1_a_def static_Regexp_def matchRoute_def)

lemma example6_loop_b:
  "match_loop static_deps example6_tables (pathList example6_tables) ''/b''
     = Inr (Some (example6_b, Map.empty))"
  by (simp add: example6_tables_def example1_a_def example6_b_def example6_c_def
      static_Regexp_def matchRoute_def)

lemma example6_loop_c:
  "match_loop static_deps example6_tables (pathList example6_tables) ''/c''
     = Inr (Some (example6_c, Map.empty))"
  by (simp add: example6_tables_def example1_a_def example6_b_def example6_c_def
      static_Regexp_def matchRoute_def)

lemma example1_path_redirect:
  "path_redirect static_deps example1_a (path_location ''/a'' \<lparr> l_params := Some Map.empty \<rparr>)
     = Some (emptyLocation \<lparr> l_path := Some ''/b'' \<rparr>)"
  by (simp add: path_redirect_def example1_a_def emptyLocation_def truthy_def)

lemma example1_chain_target:
  "chain_target static_deps (emptyLocation \<lparr> l_path := Some ''/b'' \<rparr>) example1_a
      (path_location ''/a'' \<lparr> l_params := Some Map.empty \<rparr>) = path_location ''/b''"
  by (simp add: chain_target_def path_location_def emptyLocation_def
      resolvePath_def fillParams_def Let_def static_deps_def static_compile_def example1_a_def)

lemma example1_chain_origin:
  "chain_origin (emptyLocation \<lparr> l_path := Some ''/b'' \<rparr>)
      (path_location ''/a'' \<lparr> l_params := Some Map.empty \<rparr>)
     = path_location ''/a'' \<lparr> l_params := Some Map.empty \<rparr>"
  by (simp add: chain_origin_def path_location_def emptyLocation_def)

lemma example1_chain:
  "path_redirect_chain static_deps example1_tables (path_location ''/a'') None (Suc 0)
     example1_b (path_location ''/b'' \<lparr> l_params := Some Map.empty \<rparr>)
     (Some (path_location ''/a'' \<lparr> l_params := Some Map.empty \<rparr>))"
proof (rule chain_hop [where rcd = example1_a and params = Map.empty
        and re = "emptyLocation \<lparr> l_path := Some ''/b'' \<rparr>"
        and origin = "path_location ''/a'' \<lparr> l_params := Some Map.empty \<rparr>"])
  show "path_redirect_chain static_deps example1_tables
     (chain_target static_deps (emptyLocation\<lparr>l_path := Some ''/b''\<rparr>) example1_a
       (path_location ''/a''\<lparr>l_params := Some Map.empty\<rparr>))
     (Some (chain_origin (emptyLocation\<lparr>l_path := Some ''/b''\<rparr>)
         (path_location ''/a''\<lparr>l_params := Some Map.empty\<rparr>)))
     0 example1_b (path_location ''/b'' \<lparr> l_params := Some Map.empty \<rparr>)
     (Some (path_location ''/a'' \<lparr> l_params := Some Map.empty \<rparr>))"
    unfolding example1_chain_target example1_chain_origin
    by (rule chain_end)
       (simp_all add: path_location_def emptyLocation_def truthy_def example1_loop_b
          has_redirect_def example1_b_def)
qed (simp_all add: path_location_def emptyLocation_def truthy_def example1_loop_a
       example1_path_redirect [unfolded path_location_def emptyLocation_def, simplified])

lemma example6_chain:
  "path_redirect_chain static_deps example6_tables (path_location ''/a'') None (Suc 0)
     example6_b (path_location ''/b'' \<lparr> l_params := Some Map.empty \<rparr>)
     (Some (path_location ''/a'' \<lparr> l_params := Some Map.empty \<rparr>))"
proof (rule chain_hop [where rcd = example1_a and params = Map.empty
        and re = "emptyLocation \<lparr> l_path := Some ''/b'' \<rparr>"
        and origin = "path_location ''/a'' \<lparr> l_params := Some Map.empty \<rparr>"])
  show "path_redirect_chain static_deps example6_tables
     (chain_target static_deps (emptyLocation\<lparr>l_path := Some ''/b''\<rparr>) example1_a
       (path_location ''/a''\<lparr>l_params := Some Map.empty\<rparr>))
     (Some (chain_origin (emptyLocation\<lparr>l_path := Some ''/b''\<rparr>)
         (path_location ''/a''\<lparr>l_params := Some Map.empty\<rparr>)))
     0 example6_b (path_location ''/b'' \<lparr> l_params := Some Map.empty \<rparr>)
     (Some (path_location ''/a'' \<lparr> l_params := Some Map.empty \<rparr>))"
    unfolding example1_chain_target example1_chain_origin
    by (rule chain_end)
       (simp_all add: path_location_def emptyLocation_def truthy_def example6_loop_b
          has_redirect_def example6_b_def)
qed (simp_all add: path_location_def emptyLocation_def truthy_def example6_loop_a
       example1_path_redirect [unfolded path_location_def emptyLocation_def, simplified])

lemma example6_aliasedPath:
  "fst (fillParams static_deps (the (rr_matchAs example6_b)) (Some Map.empty)) = ''/c''"
  by (simp add: fillParams_def Let_def example6_b_def static_deps_def static_compile_def)

lemma example6_inner:
  "match 2 static_deps example6_tables
     (RawLoc (emptyLocation \<lparr> l_normalized := True, l_path := Some ''/c'' \<rparr>)) None None
     = Some (Inr example6_canonical)"
proof -
  have "match (Suc (Suc 0)) static_deps example6_tables
     (RawLoc (emptyLocation \<lparr> l_normalized := True, l_path := Some ''/c'' \<rparr>)) None None
     = createRoute' (Suc 0) static_deps example6_tables (Some example6_c)
         (emptyLocation \<lparr> l_normalized := True, l_path := Some ''/c'', l_params := Some Map.empty \<rparr>) None"
    by (rule match_found [THEN trans])
       (simp_all add: emptyLocation_def truthy_def example6_loop_c)
  also have "\<dots> = Some (Inr example6_canonical)"
    unfolding example6_canonical_def
    by (rule createRoute'_plain) (simp_all add: example6_c_def has_redirect_def truthy_def)
  finally show ?thesis by (simp add: numeral_2_eq_2)
qed

lemma example6_route_eq:
  "createRoute static_deps
     (if r_matched example6_canonical = [] then None else Some (last (r_matched example6_canonical)))
     (path_location ''/b'' \<lparr> l_params := Some Map.empty, l_params := Some (r_params example6_canonical) \<rparr>) None
   = example6_route"
  by (simp add: example6_canonical_def example6_route_def createRoute_def example6_c_def)

lemma example6_match:
  "match 8 static_deps example6_tables (RawString ''/a'') None None = Some (Inr example6_route)"
proof -
  have "match (3 * Suc 0 + Suc (Suc (Suc (Suc (Suc 0))))) static_deps example6_tables
          (RawLoc (path_location ''/a'')) None None
      = createRoute' (Suc (Suc (Suc (Suc 0)))) static_deps example6_tables (Some example6_b)
          (path_location ''/b'' \<lparr> l_params := Some Map.empty \<rparr>)
          (Some (path_location ''/a'' \<lparr> l_params := Some Map.empty \<rparr>))"
    by (rule path_redirect_chain_match [OF example6_chain])
  also have "\<dots> = Some (Inr example6_route)"
    unfolding example6_route_eq [symmetric]
  proof (rule createRoute'_alias [where m = 2])
    show "match 2 static_deps example6_tables
     (RawLoc (emptyLocation \<lparr>l_normalized := True,
          l_path := Some (fst (fillParams static_deps (the (rr_matchAs example6_b))
                     (l_params (path_location ''/b''\<lparr>l_params := Some Map.empty\<rparr>))))\<rparr>))
     None None = Some (Inr example6_canonical)"
      by (simp add: example6_aliasedPath example6_inner)
  qed (simp_all add: example6_b_def has_redirect_def truthy_def)
  finally have "match 8 static_deps example6_tables (RawLoc (path_location ''/a'')) None None
      = Some (Inr example6_route)"
    by (simp add: eval_nat_numeral)
  then show ?thesis
    by (simp add: match_raw_normalized [of _ _ _ "RawString ''/a''"] example1_normalize)
qed

text \<open>
  Claim C6 fails as stated: with the configurations
  \<^verbatim>\<open>[{path:'/a', redirect:'/b'}, {path:'/c', component: X, alias:'/b'}]\<close> the record of \<^verbatim>\<open>/a\<close>
  redirects by path to the record of \<^verbatim>\<open>/b\<close>, which does not redirect, and resolving \<^verbatim>\<open>'/a'\<close>
  gives a route of path \<^verbatim>\<open>/b\<close> whose matched chain is the record of \<^verbatim>\<open>/c\<close> and which has no
  \<^verbatim>\<open>redirectedFrom\<close>: \<^verbatim>\<open>alias\<close> calls \<^verbatim>\<open>_createRoute\<close> without it.
\<close>

theorem redirect_to_alias_counterexample:
  "pathList (createRouteMap static_deps example6 emptyTables) = [''/a'', ''/c'', ''/b'']
   \<and> map_option rr_redirect (pathMap (createRouteMap static_deps example6 emptyTables) ''/a'')
       = Some (Some (RedirectTo (RawString ''/b'')))
   \<and> map_option rr_redirect (pathMap (createRouteMap static_deps example6 emptyTables) ''/b'')
       = Some None
   \<and> match 8 static_deps (createRouteMap static_deps example6 emptyTables)
       (RawString ''/a'') None None = Some (Inr example6_route)
   \<and> r_path example6_route = ''/b''
   \<and> map rr_path (r_matched example6_route) = [''/c'']
   \<and> r_redirectedFrom example6_route = None"
  by (simp add: example6_createRouteMap example6_match)
     (simp add: example6_tables_def example6_route_def createRoute_def example6_c_def
        example6_b_def example1_a_def path_location_def emptyLocation_def truthy_def)

text \<open>
  Claim C6, amended. For every chain of records linked by path redirects (a redirect
  option that is a non-empty string, an object with a path and no name, or a function
  that returns one of these) that starts at the normalised form of the raw location and
  has \<open>k\<close> hops: when the record at the end of the chain is not an alias, \<^verbatim>\<open>match\<close> returns
  (for every bound of the call depth from \<open>3 * k + 2\<close> on) the route of that record, which
  is the deepest record of its matched chain, and when the chain has a hop the
  \<^verbatim>\<open>redirectedFrom\<close> of the route is the full path (path, query and hash) of the originally
  requested location; when the record at the end is an alias and the internal match of
  its canonical path returns a route, \<^verbatim>\<open>match\<close> returns the route that \<^verbatim>\<open>alias\<close> builds from
  it, which has no \<^verbatim>\<open>redirectedFrom\<close>. Each hop re-invokes \<^verbatim>\<open>match\<close> on the target of the
  redirect with the original location, or the \<^verbatim>\<open>redirectedFrom\<close> it was given, as the
  \<^verbatim>\<open>redirectedFrom\<close> argument (up to the key \<^verbatim>\<open>0\<close> that \<^verbatim>\<open>fillParams\<close> deletes from its params).
  The witness has the example of the claim: with the configurations
  \<^verbatim>\<open>[{path:'/a', redirect:'/b'}, {path:'/b', component: X}]\<close>, resolving \<^verbatim>\<open>'/a'\<close> gives a route
  whose matched chain is the one record of path \<^verbatim>\<open>/b\<close> and whose \<^verbatim>\<open>redirectedFrom\<close> is \<^verbatim>\<open>/a\<close>.
\<close>

theorem redirect_chain_resolves:
  assumes "path_redirect_chain d t (normalizeLocation d raw cur False) None k rcd loc rf"
  shows "(\<not> truthy (rr_matchAs rcd) \<longrightarrow>
            (\<forall>n\<ge>3 * k + 2. match n d t raw cur None
                               = Some (Inr (createRoute d (Some rcd) loc rf)))
            \<and> last (r_matched (createRoute d (Some rcd) loc rf)) = rcd
            \<and> r_redirectedFrom (createRoute d (Some rcd) loc rf)
                = (if k = 0 then None
                   else Some (getFullPath d (normalizeLocation d raw cur False))))
       \<and> (\<forall>m aliasedMatch.
             truthy (rr_matchAs rcd)
             \<and> match m d t
                 (RawLoc (emptyLocation \<lparr> l_normalized := True,
                    l_path := Some (fst (fillParams d (the (rr_matchAs rcd)) (l_params loc))) \<rparr>))
                 None None = Some (Inr aliasedMatch) \<longrightarrow>
             (\<forall>n\<ge>3 * k + m + 3. match n d t raw cur None
                = Some (Inr (createRoute d
                     (if r_matched aliasedMatch = [] then None
                      else Some (last (r_matched aliasedMatch)))
                     (loc \<lparr> l_params := Some (r_params aliasedMatch) \<rparr>) None))))
       \<and> (\<forall>rcd' re loc' rf' n.
             path_redirect d rcd' (case rf' of Some x \<Rightarrow> x | None \<Rightarrow> loc') = Some re \<longrightarrow>
             createRoute' (Suc (Suc n)) d t (Some rcd') loc' rf'
               = match n d t
                   (RawLoc (chain_target d re rcd' (case rf' of Some x \<Rightarrow> x | None \<Rightarrow> loc')))
                   None
                   (Some (chain_origin re (case rf' of Some x \<Rightarrow> x | None \<Rightarrow> loc'))))"
proof -
  let ?loc0 = "normalizeLocation d raw cur False"
  have run: "match (3 * k + Suc j) d t raw cur None = createRoute' j d t (Some rcd) loc rf" for j
    using path_redirect_chain_match [OF assms, of j cur]
    by (simp add: match_raw_normalized [of _ d t raw])
  note e = path_redirect_chain_end [OF assms]
  have plain: "match n d t raw cur None = Some (Inr (createRoute d (Some rcd) loc rf))"
    if "\<not> truthy (rr_matchAs rcd)" "3 * k + 2 \<le> n" for n
  proof -
    have "match (3 * k + Suc (Suc 0)) d t raw cur None
            = Some (Inr (createRoute d (Some rcd) loc rf))"
      unfolding run using e that(1) by (simp add: createRoute'_plain)
    then show ?thesis by (rule match_mono) (use that(2) in simp)
  qed
  have rfrom: "r_redirectedFrom (createRoute d (Some rcd) loc rf)
                = (if k = 0 then None else Some (getFullPath d ?loc0))"
    using path_redirect_chain_from [OF assms] by (simp add: createRoute_def)
  have lastr: "last (r_matched (createRoute d (Some rcd) loc rf)) = rcd"
    by (simp add: createRoute_def last_formatMatch)
  have aliased: "match n d t raw cur None
                = Some (Inr (createRoute d
                     (if r_matched aliasedMatch = [] then None
                      else Some (last (r_matched aliasedMatch)))
                     (loc \<lparr> l_params := Some (r_params aliasedMatch) \<rparr>) None))"
    if "truthy (rr_matchAs rcd)"
      and "match m d t
                 (RawLoc (emptyLocation \<lparr> l_normalized := True,
                    l_path := Some (fst (fillParams d (the (rr_matchAs rcd)) (l_params loc))) \<rparr>))
                 None None = Some (Inr aliasedMatch)"
      and "3 * k + m + 3 \<le> n" for m aliasedMatch n
  proof -
    have "match (3 * k + Suc (Suc (Suc m))) d t raw cur None
            = Some (Inr (createRoute d
                     (if r_matched aliasedMatch = [] then None
                      else Some (last (r_matched aliasedMatch)))
                     (loc \<lparr> l_params := Some (r_params aliasedMatch) \<rparr>) None))"
      unfolding run
      by (rule createRoute'_alias [OF _ that(1) that(2)]) (use e in simp_all)
    then show ?thesis by (rule match_mono) (use that(3) in simp)
  qed
  show ?thesis
    using plain rfrom lastr aliased createRoute'_path_redirect [of d _ _ _ _ _ t]
    by blast
qed

theorem redirect_chain_resolves_witness:
  "path_redirect_chain static_deps (createRouteMap static_deps example1 emptyTables)
     (normalizeLocation static_deps (RawString ''/a'') None False) None (Suc 0)
     example1_b (path_location ''/b'' \<lparr> l_params := Some Map.empty \<rparr>)
     (Some (path_location ''/a'' \<lparr> l_params := Some Map.empty \<rparr>))
   \<and> \<not> truthy (rr_matchAs example1_b)
   \<and> match 5 static_deps (createRouteMap static_deps example1 emptyTables)
       (RawString ''/a'') None None = Some (Inr example1_route)
   \<and> map rr_path (r_matched example1_route) = [''/b'']
   \<and> r_redirectedFrom example1_route = Some ''/a''
   \<and> path_redirect_chain static_deps (createRouteMap static_deps example6 emptyTables)
       (normalizeLocation static_deps (RawString ''/a'') None False) None (Suc 0)
       example6_b (path_location ''/b'' \<lparr> l_params := Some Map.empty \<rparr>)
       (Some (path_location ''/a'' \<lparr> l_params := Some Map.empty \<rparr>))
   \<and> truthy (rr_matchAs example6_b)
   \<and> match 2 static_deps (createRouteMap static_deps example6 emptyTables)
       (RawLoc (emptyLocation \<lparr> l_normalized := True, l_path := Some ''/c'' \<rparr>)) None None
       = Some (Inr example6_canonical)
   \<and> match 8 static_deps (createRouteMap static_deps example6 emptyTables)
       (RawString ''/a'') None None = Some (Inr example6_route)
   \<and> r_redirectedFrom example6_route = None
   \<and> path_redirect static_deps example1_a (path_location ''/a'' \<lparr> l_params := Some Map.empty \<rparr>)
       = Some (emptyLocation \<lparr> l_path := Some ''/b'' \<rparr>)
   \<and> createRoute' 4 static_deps (createRouteMap static_deps example1 emptyTables)
       (Some example1_a) (path_location ''/a'' \<lparr> l_params := Some Map.empty \<rparr>) None
       = match 2 static_deps (createRouteMap static_deps example1 emptyTables)
           (RawLoc (path_location ''/b'')) None
           (Some (path_location ''/a'' \<lparr> l_params := Some Map.empty \<rparr>))"
proof -
  have chain1: "path_redirect_chain static_deps (createRouteMap static_deps example1 emptyTables)
     (normalizeLocation static_deps (RawString ''/a'') None False) None (Suc 0)
     example1_b (path_location ''/b'' \<lparr> l_params := Some Map.empty \<rparr>)
     (Some (path_location ''/a'' \<lparr> l_params := Some Map.empty \<rparr>))"
    by (simp add: example1_createRouteMap example1_normalize example1_chain)
  have chain6: "path_redirect_chain static_deps (createRouteMap static_deps example6 emptyTables)
     (normalizeLocation static_deps (RawString ''/a'') None False) None (Suc 0)
     example6_b (path_location ''/b'' \<lparr> l_params := Some Map.empty \<rparr>)
     (Some (path_location ''/a'' \<lparr> l_params := Some Map.empty \<rparr>))"
    by (simp add: example6_createRouteMap example1_normalize example6_chain)
  have plain1: "\<not> truthy (rr_matchAs example1_b)"
    by (simp add: example1_b_def truthy_def)
  have alias6: "truthy (rr_matchAs example6_b)"
    by (simp add: example6_b_def truthy_def)
  have inner6: "match 2 static_deps (createRouteMap static_deps example6 emptyTables)
       (RawLoc (emptyLocation \<lparr> l_normalized := True, l_path := Some ''/c'' \<rparr>)) None None
       = Some (Inr example6_canonical)"
    by (simp add: example6_createRouteMap example6_inner)
  have inner6': "match 2 static_deps (createRouteMap static_deps example6 emptyTables)
       (RawLoc (emptyLocation \<lparr> l_normalized := True,
          l_path := Some (fst (fillParams static_deps (the (rr_matchAs example6_b))
                     (l_params (path_location ''/b'' \<lparr> l_params := Some Map.empty \<rparr>)))) \<rparr>))
       None None = Some (Inr example6_canonical)"
    using inner6 by (simp add: example6_aliasedPath)
  have redirect1: "path_redirect static_deps example1_a
       (case None of Some x \<Rightarrow> x | None \<Rightarrow> path_location ''/a'' \<lparr> l_params := Some Map.empty \<rparr>)
       = Some (emptyLocation \<lparr> l_path := Some ''/b'' \<rparr>)"
    by (simp add: example1_path_redirect)
  note thm1 = redirect_chain_resolves [OF chain1]
  note thm6 = redirect_chain_resolves [OF chain6]
  from thm1 plain1 have m1: "match 5 static_deps (createRouteMap static_deps example1 emptyTables)
       (RawString ''/a'') None None
       = Some (Inr (createRoute static_deps (Some example1_b)
            (path_location ''/b'' \<lparr> l_params := Some Map.empty \<rparr>)
            (Some (path_location ''/a'' \<lparr> l_params := Some Map.empty \<rparr>))))"
    by simp
  from thm6 alias6 inner6' have m6: "match 8 static_deps (createRouteMap static_deps example6 emptyTables)
       (RawString ''/a'') None None
       = Some (Inr (createRoute static_deps
            (if r_matched example6_canonical = [] then None
             else Some (last (r_matched example6_canonical)))
            (path_location ''/b'' \<lparr> l_params := Some Map.empty,
               l_params := Some (r_params example6_canonical) \<rparr>) None))"
    by (elim conjE allE [where x = 2] allE [where x = example6_canonical]) simp
  from thm1 redirect1 have h1: "createRoute' (Suc (Suc 2)) static_deps
         (createRouteMap static_deps example1 emptyTables)
         (Some example1_a) (path_location ''/a'' \<lparr> l_params := Some Map.empty \<rparr>) None
       = match 2 static_deps (createRouteMap static_deps example1 emptyTables)
           (RawLoc (chain_target static_deps (emptyLocation \<lparr> l_path := Some ''/b'' \<rparr>) example1_a
              (path_location ''/a'' \<lparr> l_params := Some Map.empty \<rparr>)))
           None
           (Some (chain_origin (emptyLocation \<lparr> l_path := Some ''/b'' \<rparr>)
              (path_location ''/a'' \<lparr> l_params := Some Map.empty \<rparr>)))"
    by (elim conjE) (drule spec [where x = example1_a], drule spec [where x = "emptyLocation \<lparr> l_path := Some ''/b'' \<rparr>"],
        drule spec [where x = "path_location ''/a'' \<lparr> l_params := Some Map.empty \<rparr>"],
        drule spec [where x = None], drule spec [where x = 2], simp)
  have r1: "map rr_path (r_matched example1_route) = [''/b'']"
    by (simp add: example1_route_def createRoute_def example1_b_def)
  have r2: "r_redirectedFrom example1_route = Some ''/a''"
    by (simp add: example1_route_def createRoute_def getFullPath_def path_location_def
        emptyLocation_def truthy_def stringify_def stringifyQuery_def static_deps_def)
  have r6: "r_redirectedFrom example6_route = None"
    by (simp add: example6_route_def createRoute_def)
  have four: "Suc (Suc 2) = 4" by simp
  show ?thesis
    using chain1 chain6 plain1 alias6 inner6 r1 r2 r6
      m1 [folded example1_route_def] m6 [unfolded example6_route_eq]
      h1 [unfolded example1_chain_target example1_chain_origin four]
      example1_path_redirect
    by (intro conjI) assumption+
qed

section \<open>Properties of the exceptions of the matcher\<close>















text \<open>Registering records keeps every path of the list in the map.\<close>

lemma fold_invariant:
  assumes "P t" and "\<And>x t. x \<in> set xs \<Longrightarrow> P t \<Longrightarrow> P (f x t)"
  shows "P (fold f xs t)"
  using assms by (induction xs arbitrary: t) auto

lemma paths_recorded_registerPath: "paths_recorded t \<Longrightarrow> paths_recorded (registerPath t r)"
  by (auto simp: paths_recorded_def registerPath_def)

lemma paths_recorded_registerName: "paths_recorded t \<Longrightarrow> paths_recorded (registerName t n r)"
  by (auto simp: paths_recorded_def registerName_def)

lemma paths_recorded_alloc: "paths_recorded t \<Longrightarrow> paths_recorded (t \<lparr> alloc := k \<rparr>)"
  by (auto simp: paths_recorded_def)

lemma paths_recorded_addRouteRecord:
  "paths_recorded t \<Longrightarrow> paths_recorded (addRouteRecord d t route parent matchAs)"
proof (induction d t route parent matchAs rule: addRouteRecord.induct)
  case (1 d t route parent matchAs)
  define rcd where "rcd = makeRecord d (alloc t) route parent matchAs"
  define t1 where "t1 = t \<lparr> alloc := Suc (alloc t) \<rparr>"
  define t2 where "t2 = fold (\<lambda>child t'.
                  addRouteRecord d t' child (Some rcd)
                    (if truthy matchAs
                     then Some (cleanPath (the matchAs @ ''/'' @ c_path child))
                     else None))
                 (c_children route) t1"
  define t3 where "t3 = registerPath t2 rcd"
  define t4 where "t4 = fold (\<lambda>alias t'.
                  if \<not> production d \<and> alias = c_path route then t'
                  else addRouteRecord d t' (aliasRoute alias (c_children route)) parent
                         (Some (if rr_path rcd \<noteq> [] then rr_path rcd else ''/'')))
                 (c_alias route) t3"
  have eq: "addRouteRecord d t route parent matchAs = registerName t4 (c_name route) rcd"
    unfolding rcd_def t1_def t2_def t3_def t4_def
    by (subst addRouteRecord.simps) (simp only: Let_def)
  have p1: "paths_recorded t1" using "1.prems" by (simp add: t1_def paths_recorded_alloc)
  have p2: "paths_recorded t2"
    unfolding t2_def
    by (rule fold_invariant [where P = paths_recorded, OF p1]) (rule "1.IH"(1) [OF rcd_def t1_def], assumption+)
  have p3: "paths_recorded t3" using p2 by (simp add: t3_def paths_recorded_registerPath)
  have p4: "paths_recorded t4"
    unfolding t4_def
  proof (rule fold_invariant [where P = paths_recorded, OF p3])
    fix x t'
    assume x: "x \<in> set (c_alias route)" and t': "paths_recorded t'"
    show "paths_recorded (if \<not> production d \<and> x = c_path route then t'
       else addRouteRecord d t' (aliasRoute x (c_children route)) parent
              (Some (if rr_path rcd \<noteq> [] then rr_path rcd else ''/'')))"
    proof (cases "\<not> production d \<and> x = c_path route")
      case True
      then show ?thesis using t' by simp
    next
      case False
      have "paths_recorded (addRouteRecord d t' (aliasRoute x (c_children route)) parent
              (Some (if rr_path rcd \<noteq> [] then rr_path rcd else ''/'')))"
        by (rule "1.IH"(2) [OF rcd_def t1_def t2_def [unfolded rcd_def t1_def, folded rcd_def t1_def] t3_def x False t'])
      then show ?thesis by (simp only: False if_False)
    qed
  qed
  show ?case unfolding eq using p4 by (rule paths_recorded_registerName)
qed

lemma paths_recorded_createRouteMap:
  "paths_recorded old \<Longrightarrow> paths_recorded (createRouteMap d routes old)"
proof -
  assume old: "paths_recorded old"
  have "paths_recorded (fold (\<lambda>route t'. addRouteRecord d t' route None None) routes old)"
    by (rule fold_invariant [where P = paths_recorded, OF old]) (rule paths_recorded_addRouteRecord)
  then show ?thesis
    by (auto simp: createRouteMap_def Let_def createRouteMap_loop_eq paths_recorded_def)
qed

lemma paths_recorded_emptyTables: "paths_recorded emptyTables"
  by (simp add: paths_recorded_def emptyTables_def)


lemma example9_plain_createRouteMap:
  "createRouteMap static_deps example9_plain emptyTables = example9_plain_tables"
  by (simp add: createRouteMap_def example9_plain_def addRouteRecord_no_children table_simps
      static_deps_def no_options_def createRouteMap_loop_eq example9_plain_tables_def
      example9_b_def)














section \<open>Properties of the transition engine\<close>

lemma nth_int_last:
  "nth_int xs (int (length xs) - 1) = (if xs = [] then None else Some (last xs))"
proof (cases "xs = []")
  case True
  then show ?thesis by (simp add: nth_int_def)
next
  case False
  then have "nat (int (length xs) - 1) = length xs - 1" by simp
  with False show ?thesis
    by (simp add: nth_int_def nth_opt_eq last_conv_nth)
qed

lemma is_duplicate_iff:
  "is_duplicate e route cur \<longleftrightarrow>
     isSameRoute e route cur
     \<and> length (r_matched route) = length (r_matched cur)
     \<and> (r_matched route \<noteq> [] \<longrightarrow>
          rr_id (last (r_matched route)) = rr_id (last (r_matched cur)))"
  by (auto simp: is_duplicate_def Let_def nth_int_last)

lemma abort_navigation_failure:
  "abort tr (NavigationFailure k a b) st
     = (case t_onAbort tr of None \<Rightarrow> st | Some onAbort \<Rightarrow> onAbort (NavigationFailure k a b) st)"
  by (simp add: abort_def isNavigationFailure_def)

lemma transition_abort_trace:
  "h_trace (transition_abort cbs prev err st)
     = h_trace st
       @ (case cb_onAbort cbs of None \<Rightarrow> [] | Some f \<Rightarrow> [UserAbort f err])
       @ (if truthy_value err \<and> \<not> h_ready st
             \<and> (\<not> isNavigationFailure err (Some redirected) \<or> r_ref prev \<noteq> 0)
          then map (\<lambda>cb. ReadyErrorCb cb err) (h_readyErrorCbs st) else [])"
  by (auto simp: transition_abort_def emit_def Let_def split: option.splits)

lemma transition_abort_current [simp]:
  "h_current (transition_abort cbs prev err st) = h_current st"
  by (simp add: transition_abort_def emit_def Let_def split: option.splits)

lemma transition_abort_pending [simp]:
  "h_pending (transition_abort cbs prev err st) = h_pending st"
  by (simp add: transition_abort_def emit_def Let_def split: option.splits)

text \<open>
  Claim C5. When the target route equals the current route under the route equality of
  the router, the two matched chains have the same length and (when not empty) the
  same deepest record by identity, \<^verbatim>\<open>confirmTransition\<close> makes the target the pending route,
  calls \<^verbatim>\<open>ensureURL\<close> and then aborts with a navigation failure of kind \<^verbatim>\<open>duplicated\<close> from the
  current to the target route: the abort callback receives a state whose trace has gained
  the call of \<^verbatim>\<open>ensureURL\<close> and nothing else, so no guard has been invoked. With the abort
  callback of \<^verbatim>\<open>transitionTo\<close> the current route is left as it is, and the trace gains only
  the call of \<^verbatim>\<open>ensureURL\<close>, the abort callback of the caller and (before the history is
  ready) the ready-error callbacks.
\<close>

theorem duplicate_transition_aborts:
  assumes same: "isSameRoute e route (h_current st)"
    and len: "length (r_matched route) = length (r_matched (h_current st))"
    and deepest: "r_matched route \<noteq> [] \<longrightarrow>
                    rr_id (last (r_matched route)) = rr_id (last (r_matched (h_current st)))"
  shows "confirmTransition e route onComplete (Some onAbort) st
           = (Finished,
              onAbort (NavigationFailure duplicated (r_ref (h_current st)) (r_ref route))
                (st \<lparr> h_pending := Some route, h_trace := h_trace st @ [EnsureURL False] \<rparr>))
       \<and> confirmTransition e route onComplete None st
           = (Finished, st \<lparr> h_pending := Some route, h_trace := h_trace st @ [EnsureURL False] \<rparr>)
       \<and> fst (confirmTransition e route onComplete (Some (transition_abort cbs prev)) st) = Finished
       \<and> h_current (snd (confirmTransition e route onComplete (Some (transition_abort cbs prev)) st))
           = h_current st
       \<and> h_trace (snd (confirmTransition e route onComplete (Some (transition_abort cbs prev)) st))
           = h_trace st @ [EnsureURL False]
             @ (case cb_onAbort cbs of
                  None \<Rightarrow> []
                | Some f \<Rightarrow>
                    [UserAbort f (NavigationFailure duplicated (r_ref (h_current st)) (r_ref route))])
             @ (if h_ready st then []
                else map (\<lambda>cb. ReadyErrorCb cb
                            (NavigationFailure duplicated (r_ref (h_current st)) (r_ref route)))
                       (h_readyErrorCbs st))"
proof -
  have dup: "is_duplicate e route (h_current st)"
    using assms by (simp add: is_duplicate_iff)
  have a: "confirmTransition e route onComplete oa st
           = (Finished,
              case oa of
                None \<Rightarrow> st \<lparr> h_pending := Some route, h_trace := h_trace st @ [EnsureURL False] \<rparr>
              | Some f \<Rightarrow> f (NavigationFailure duplicated (r_ref (h_current st)) (r_ref route))
                  (st \<lparr> h_pending := Some route, h_trace := h_trace st @ [EnsureURL False] \<rparr>))" for oa
    using dup
    by (simp add: confirmTransition_def Let_def createNavigationFailure_def
        abort_navigation_failure ensureURL_def emit_def split: option.splits)
  show ?thesis
    by (simp add: a transition_abort_trace truthy_value_def isNavigationFailure_def)
qed

lemma static_normalize_b:
  "normalizeLocation static_deps (RawString ''/b'') cur False = path_location ''/b''"
  by (cases cur)
     (simp_all add: normalizeLocation_def raw_object_def emptyLocation_def truthy_def Let_def
      parsePath_def resolvePath_def resolveQuery_def static_deps_def path_location_def)

lemma example9_plain_loop_b:
  "match_loop static_deps example9_plain_tables (pathList example9_plain_tables) ''/b''
     = Inr (Some (example9_b, Map.empty))"
  by (simp add: example9_plain_tables_def example9_b_def static_Regexp_def matchRoute_def)

lemma example4_match:
  "match 2 static_deps example9_plain_tables (RawString ''/b'') cur None
     = Some (Inr example4_route)"
proof -
  have "match (Suc (Suc 0)) static_deps example9_plain_tables (RawLoc (path_location ''/b'')) cur None
     = createRoute' (Suc 0) static_deps example9_plain_tables (Some example9_b)
         (path_location ''/b'' \<lparr> l_params := Some Map.empty \<rparr>) None"
    by (rule match_found [THEN trans])
       (simp_all add: path_location_def emptyLocation_def truthy_def
          example9_plain_loop_b [unfolded path_location_def])
  also have "\<dots> = Some (Inr example4_route)"
    unfolding example4_route_def
    by (rule createRoute'_plain) (simp_all add: example9_b_def has_redirect_def truthy_def)
  finally show ?thesis
    by (simp add: numeral_2_eq_2 match_raw_normalized [of _ _ _ "RawString ''/b''"]
        static_normalize_b)
qed

lemma example4_router_match:
  "router_match example4_env (RawString ''/b'') cur = Inr example4_route"
  by (simp add: example4_env_def router_match_of_def example9_plain_createRouteMap example4_match)

lemma example4_matched: "r_matched example4_route = [example9_b]"
  by (simp add: example4_route_def createRoute_def example9_b_def)

theorem duplicate_transition_aborts_witness:
  "isSameRoute example4_env (example4_route \<lparr> r_ref := 2 \<rparr>) (h_current example4_history)
   \<and> length (r_matched (example4_route \<lparr> r_ref := 2 \<rparr>))
       = length (r_matched (h_current example4_history))
   \<and> r_matched (example4_route \<lparr> r_ref := 2 \<rparr>) = [example9_b]
   \<and> last (r_matched (h_current example4_history)) = example9_b
   \<and> beforeHooks example4_env = [Some ''before'']
   \<and> confirmTransition example4_env (example4_route \<lparr> r_ref := 2 \<rparr>)
         (transition_complete example4_env example4_callbacks (h_current example4_history))
         (Some (transition_abort example4_callbacks (h_current example4_history)))
         (example4_history \<lparr> h_fresh := 3 \<rparr>)
       = (Finished,
          example4_history \<lparr> h_fresh := 3,
            h_pending := Some (example4_route \<lparr> r_ref := 2 \<rparr>),
            h_trace := [EnsureURL False,
                        UserAbort ''onAbort'' (NavigationFailure duplicated 1 2)] \<rparr>)
   \<and> transitionTo example4_env (RawString ''/b'') example4_callbacks example4_history
       = (Finished,
          example4_history \<lparr> h_fresh := 3,
            h_pending := Some (example4_route \<lparr> r_ref := 2 \<rparr>),
            h_trace := [EnsureURL False,
                        UserAbort ''onAbort'' (NavigationFailure duplicated 1 2)] \<rparr>)"
proof -
  let ?st = "example4_history \<lparr> h_fresh := 3 \<rparr>"
  let ?route = "example4_route \<lparr> r_ref := 2 \<rparr>"
  have cur: "h_current ?st = example4_route \<lparr> r_ref := 1 \<rparr>"
    by (simp add: example4_history_def)
  have same: "isSameRoute example4_env ?route (h_current ?st)"
    by (simp add: cur example4_env_def same_route_def)
  have len: "length (r_matched ?route) = length (r_matched (h_current ?st))"
    by (simp add: cur)
  have deepest: "r_matched ?route \<noteq> [] \<longrightarrow>
       rr_id (last (r_matched ?route)) = rr_id (last (r_matched (h_current ?st)))"
    by (simp add: cur)
  note dup = duplicate_transition_aborts [OF same len deepest,
      of "transition_complete example4_env example4_callbacks (h_current example4_history)"
         "transition_abort example4_callbacks (h_current example4_history)"]
  then have confirm: "confirmTransition example4_env ?route
         (transition_complete example4_env example4_callbacks (h_current example4_history))
         (Some (transition_abort example4_callbacks (h_current example4_history))) ?st
       = (Finished,
          transition_abort example4_callbacks (h_current example4_history)
            (NavigationFailure duplicated (r_ref (h_current ?st)) (r_ref ?route))
            (?st \<lparr> h_pending := Some ?route, h_trace := h_trace ?st @ [EnsureURL False] \<rparr>))"
    by blast
  have result: "transition_abort example4_callbacks (h_current example4_history)
            (NavigationFailure duplicated (r_ref (h_current ?st)) (r_ref ?route))
            (?st \<lparr> h_pending := Some ?route, h_trace := h_trace ?st @ [EnsureURL False] \<rparr>)
        = example4_history \<lparr> h_fresh := 3, h_pending := Some ?route,
            h_trace := [EnsureURL False,
                        UserAbort ''onAbort'' (NavigationFailure duplicated 1 2)] \<rparr>"
    by (simp add: transition_abort_def example4_callbacks_def example4_history_def emit_def
        Let_def)
  have tt: "transitionTo example4_env (RawString ''/b'') example4_callbacks example4_history
      = confirmTransition example4_env ?route
         (transition_complete example4_env example4_callbacks (h_current example4_history))
         (Some (transition_abort example4_callbacks (h_current example4_history))) ?st"
    by (simp add: transitionTo_def example4_router_match Let_def)
       (simp add: example4_history_def)
  show ?thesis
    using same len confirm [unfolded result] tt
    by (simp add: example4_matched cur example4_env_def)
       (simp add: example4_history_def example4_matched)
qed

section \<open>Properties of the outcomes of a guard\<close>

lemma emit_emit [simp]: "emit b (emit a st) = emit (a @ b) st"
  by (simp add: emit_def)

lemma emit_Nil [simp]: "emit [] st = st"
  by (simp add: emit_def)



































end
